theory Spec2Isabelle
  imports Complex_Main "HOL-Library.Signed_Division"
begin

section \<open>Data model of arm_control.cpp\<close>

text \<open>
  The program is one function, \<open>main\<close>, whose local variables are captured by reference by
  three lambdas: \<open>zmq_receiver\<close> (a thread), \<open>zmq_sender\<close> (a thread) and the real-time
  callbacks \<open>callback_joint\<close> / \<open>callback_cart\<close>, which the robot controller calls once per
  control cycle.

  Modelling decisions.
  \<^item> \<open>double\<close> is modelled by \<open>real\<close>: the arithmetic is exact, rounding is not modelled.
  \<^item> \<open>std::array<double, N>\<close> and \<open>std::vector<double>\<close> are \<open>real list\<close>; the fixed sizes
    3, 9, 16 of the arrays appear as length hypotheses.
  \<^item> A \<open>steady_clock::time_point\<close> is an \<open>int\<close>, the number of clock periods
    (nanoseconds) since the clock's epoch.
  \<^item> The \<open>const\<close> configuration values at the top of \<open>main\<close> are the fields of a record
    \<open>config\<close>; \<open>main_config\<close> holds the values the source assigns.
  \<^item> An exception that leaves the body of a thread function is the result \<open>Inl e\<close>.
  \<^item> The lines written to \<open>std::cerr\<close> are returned as a list of \<open>log_line\<close> values; the
    diagnostics on \<open>std::cout\<close> change neither the state nor a return value and are left out.
\<close>

datatype CmdType = xyzrpy_vel | pose_mat | joint_pose

record config =
  usePositionControl :: bool
  useDesiredPose :: bool
  useTCPMove :: bool
  cmdType :: CmdType
  max_linear_velocity :: real
  max_angular_velocity :: real

definition main_config :: config where
  "main_config =
     \<lparr> usePositionControl = True, useDesiredPose = True, useTCPMove = False,
       cmdType = pose_mat, max_linear_velocity = 8 / 100, max_angular_velocity = 16 / 100 \<rparr>"

definition tcp_frame :: "real list" where
  "tcp_frame = [1, 0, 0, 0,
                0, 1, 0, 0,
                0, 0, 1, 2 / 10,
                0, 0, 0, 1]"

text \<open>\<open>timeout_duration\<close> is \<open>std::chrono::milliseconds(100)\<close>; \<open>dt\<close> is the constant 0.001 of
  \<open>callback_cart\<close>.\<close>

definition timeout_duration :: int where
  "timeout_duration = 100"

definition dt :: real where
  "dt = 1 / 1000"

text \<open>\<open>duration_cast<milliseconds>\<close> of a difference of two time points: division by the
  number of clock periods in a millisecond, truncating towards zero.\<close>

definition duration_cast_ms :: "int \<Rightarrow> int" where
  "duration_cast_ms d = d sdiv 1000000"

text \<open>The variables of \<open>main\<close> that the lambdas capture by reference.\<close>

record state =
  linear_velocity_cmd :: "real list"
  angular_velocity_cmd :: "real list"
  pose_matrix_cmd :: "real list"
  joint_position_cmd :: "real list"
  command_supressed :: bool
  last_message_time :: int
  current_posture :: "real list"
  current_joint :: "real list"
  last_pos :: "real list"
  curr_pos :: "real list"
  target_pose_matrix :: "real list"
  target_joint_pose :: "real list"

text \<open>What one call of a callback reads from outside: the clock (\<open>callback_start\<close>) and the
  two queries \<open>robot.posture(flangeInBase, ec)\<close> and \<open>robot.jointPos(ec)\<close>.\<close>

record tick_input =
  callback_start :: int
  posture :: "real list"
  jointPos :: "real list"

section \<open>The JSON values of the inbound messages\<close>

text \<open>
  \<open>json::parse\<close> and the accessors belong to the nlohmann library, which is not part of the
  repository. The outcome of \<open>json::parse\<close> on the bytes of a message is an input of the
  model: \<open>parse_failure\<close> when the library throws \<open>parse_error\<close>, \<open>parse_ok j\<close> otherwise. An
  object is an association list read with \<open>map_of\<close>.
\<close>

datatype json =
    JNull
  | JBool bool
  | JNumber real
  | JString string
  | JArray "json list"
  | JObject "(string \<times> json) list"

datatype parse_result = parse_failure | parse_ok json

datatype exception = parse_error | type_error | out_of_range

text \<open>The two lines the program writes to \<open>std::cerr\<close>: the unknown-command line of the
  receiver, which prints the message, and the timeout warning of \<open>callback_cart\<close>.\<close>

datatype log_line = stderr_unknown_command json | stderr_timeout_warning

text \<open>\<open>j.contains(key)\<close>: true only for an object that has the key.\<close>

fun contains :: "json \<Rightarrow> string \<Rightarrow> bool" where
  "contains (JObject kvs) k = (map_of kvs k \<noteq> None)"
| "contains _ k = False"

text \<open>\<open>j[key]\<close>. The program evaluates it only after \<open>contains\<close> has returned true.\<close>

fun at_key :: "json \<Rightarrow> string \<Rightarrow> json" where
  "at_key (JObject kvs) k = (case map_of kvs k of Some v \<Rightarrow> v | None \<Rightarrow> JNull)"
| "at_key _ k = JNull"

text \<open>\<open>get<double>()\<close>: a number converts, every other value throws \<open>type_error\<close>.\<close>

fun get_double :: "json \<Rightarrow> exception + real" where
  "get_double (JNumber x) = Inr x"
| "get_double _ = Inl type_error"

text \<open>
  \<open>get<std::array<double, N>>()\<close>: a value that is not an array throws \<open>type_error\<close>; otherwise
  the elements 0 .. N-1 are read in order with \<open>at(i).get<double>()\<close>, where \<open>at\<close> throws
  \<open>out_of_range\<close> past the end. Elements beyond index N-1 are not looked at.
\<close>

fun get_elems :: "nat \<Rightarrow> json list \<Rightarrow> exception + real list" where
  "get_elems 0 js = Inr []"
| "get_elems (Suc n) [] = Inl out_of_range"
| "get_elems (Suc n) (j # js) =
     (case get_double j of
        Inl e \<Rightarrow> Inl e
      | Inr x \<Rightarrow> (case get_elems n js of Inl e \<Rightarrow> Inl e | Inr xs \<Rightarrow> Inr (x # xs)))"

fun get_array :: "nat \<Rightarrow> json \<Rightarrow> exception + real list" where
  "get_array n (JArray js) = get_elems n js"
| "get_array n _ = Inl type_error"

section \<open>The receiver thread\<close>

text \<open>
  One iteration of the \<open>while (running)\<close> loop of \<open>zmq_receiver\<close> in which \<open>recv\<close> returned a
  message: \<open>current_time\<close> is the clock reading, \<open>msg\<close> the outcome of \<open>json::parse\<close>. The
  assignments under \<open>command_mutex\<close> are one state update.
\<close>

definition zmq_receiver_step ::
  "int \<Rightarrow> parse_result \<Rightarrow> state \<Rightarrow> exception + (state \<times> log_line list)" where
  "zmq_receiver_step current_time msg st =
     (case msg of
        parse_failure \<Rightarrow> Inl parse_error
      | parse_ok msg_json \<Rightarrow>
          if contains msg_json ''linear_velocity'' \<and> contains msg_json ''angular_velocity'' then
            (case get_array 3 (at_key msg_json ''linear_velocity'') of
               Inl e \<Rightarrow> Inl e
             | Inr linear_velocity \<Rightarrow>
                (case get_array 3 (at_key msg_json ''angular_velocity'') of
                   Inl e \<Rightarrow> Inl e
                 | Inr angular_velocity \<Rightarrow>
                     Inr (st\<lparr> linear_velocity_cmd := linear_velocity,
                              angular_velocity_cmd := angular_velocity,
                              command_supressed := False,
                              last_message_time := current_time \<rparr>, [])))
          else if contains msg_json ''pose_matrix'' then
            (case get_array 16 (at_key msg_json ''pose_matrix'') of
               Inl e \<Rightarrow> Inl e
             | Inr pose_matrix \<Rightarrow>
                 Inr (st\<lparr> pose_matrix_cmd := pose_matrix,
                          command_supressed := False,
                          last_message_time := current_time \<rparr>, []))
          else if contains msg_json ''joint_position'' then
            (case get_array 7 (at_key msg_json ''joint_position'') of
               Inl e \<Rightarrow> Inl e
             | Inr joint_position \<Rightarrow>
                 Inr (st\<lparr> joint_position_cmd := joint_position,
                          command_supressed := True,
                          last_message_time := current_time \<rparr>, []))
          else Inr (st, [stderr_unknown_command msg_json]))"

text \<open>
  The loop: one list element per iteration made while \<open>running\<close> is true, \<open>None\<close> when \<open>recv\<close>
  returned without a message. The lambda has no handler, so an exception ends the loop (and,
  leaving a \<open>std::thread\<close>, the process).
\<close>

fun zmq_receiver ::
  "(int \<times> parse_result) option list \<Rightarrow> state \<Rightarrow> exception + (state \<times> log_line list)" where
  "zmq_receiver [] st = Inr (st, [])"
| "zmq_receiver (None # ms) st = zmq_receiver ms st"
| "zmq_receiver (Some (current_time, msg) # ms) st =
     (case zmq_receiver_step current_time msg st of
        Inl e \<Rightarrow> Inl e
      | Inr (st', out) \<Rightarrow>
          (case zmq_receiver ms st' of
             Inl e \<Rightarrow> Inl e
           | Inr (st'', out') \<Rightarrow> Inr (st'', out @ out')))"

section \<open>Start-up: the seeds of the targets\<close>

text \<open>
  The values the captured variables have when they are declared. \<open>now\<close> is the clock reading
  that initialises \<open>last_message_time\<close>. \<open>target_pose_matrix\<close> is declared without an
  initialiser and written before it is read; the model starts it at zero.
\<close>

definition declared_state :: "int \<Rightarrow> state" where
  "declared_state now =
     \<lparr> linear_velocity_cmd = [0, 0, 0],
       angular_velocity_cmd = [0, 0, 0],
       pose_matrix_cmd = replicate 16 0,
       joint_position_cmd = [],
       command_supressed = False,
       last_message_time = now,
       current_posture = replicate 6 0,
       current_joint = replicate 7 0,
       last_pos = [0, 0, 0],
       curr_pos = [0, 0, 0],
       target_pose_matrix = replicate 16 0,
       target_joint_pose = [] \<rparr>"

text \<open>
  The triple loop that fills \<open>tcp_in_base\<close> from \<open>target_pose_matrix\<close> and \<open>tcp_frame\<close>:
  entry \<open>i * 4 + j\<close> is set to 0 and then receives the products
  \<open>target_pose_matrix[i * 4 + k] * tcp_frame[k * 4 + j]\<close> for \<open>k = 0 .. 3\<close>.
\<close>

definition tcp_in_base_of :: "real list \<Rightarrow> real list \<Rightarrow> real list" where
  "tcp_in_base_of target frame =
     fold (\<lambda>i. fold (\<lambda>j tcp_in_base.
             fold (\<lambda>k acc. acc[i * 4 + j := acc ! (i * 4 + j) + target ! (i * 4 + k) * frame ! (k * 4 + j)])
                  [0..<4] (tcp_in_base[i * 4 + j := 0]))
           [0..<4])
       [0..<4] (replicate 16 0)"

text \<open>
  The seeding of the targets in \<open>main\<close>. \<open>postureToTransArray\<close> is the conversion of the
  robot library from a posture (x, y, z, rx, ry, rz) to a row-major 4x4 transform; it is a
  parameter. \<open>posture0\<close> and \<open>joint0\<close> are the answers of \<open>robot.posture\<close> and \<open>robot.jointPos\<close>.
\<close>

definition seed_targets :: "(real list \<Rightarrow> real list) \<Rightarrow> real list \<Rightarrow> real list \<Rightarrow> state \<Rightarrow> state" where
  "seed_targets postureToTransArray posture0 joint0 st =
     (let st1 = st\<lparr> current_posture := posture0 \<rparr>;
          st2 = st1\<lparr> target_pose_matrix := postureToTransArray (current_posture st1) \<rparr>;
          st3 = st2\<lparr> pose_matrix_cmd := target_pose_matrix st2 \<rparr>;
          st4 = st3\<lparr> current_joint := joint0 \<rparr>;
          st5 = st4\<lparr> target_joint_pose := current_joint st4 \<rparr>;
          st6 = st5\<lparr> joint_position_cmd := target_joint_pose st5 \<rparr>
      in st6\<lparr> target_pose_matrix := tcp_in_base_of (target_pose_matrix st6) tcp_frame \<rparr>)"

section \<open>The real-time callbacks\<close>

text \<open>\<open>callback_joint\<close>: mirror the observed state, copy \<open>joint_position_cmd\<close> into the target
  and return it.\<close>

definition callback_joint :: "tick_input \<Rightarrow> state \<Rightarrow> real list \<times> state" where
  "callback_joint inp st =
     (let st1 = st\<lparr> current_posture := posture inp, current_joint := jointPos inp \<rparr>;
          st2 = st1\<lparr> target_joint_pose := joint_position_cmd st1 \<rparr>
      in (target_joint_pose st2, st2))"

text \<open>The block under \<open>pose_mutex\<close> at the head of \<open>callback_cart\<close>.\<close>

definition update_current_pose :: "tick_input \<Rightarrow> state \<Rightarrow> state" where
  "update_current_pose inp st = st\<lparr> current_posture := posture inp, current_joint := jointPos inp \<rparr>"

text \<open>The start of the motion: with \<open>useDesiredPose\<close> off the target is reset to the observed
  posture; \<open>curr_pos\<close> takes the translation of the target.\<close>

definition motion_start :: "config \<Rightarrow> (real list \<Rightarrow> real list) \<Rightarrow> tick_input \<Rightarrow> state \<Rightarrow> state" where
  "motion_start cfg postureToTransArray inp st =
     (let st1 = (if \<not> useDesiredPose cfg
                 then st\<lparr> target_pose_matrix := postureToTransArray (posture inp) \<rparr> else st)
      in st1\<lparr> curr_pos := [target_pose_matrix st1 ! 3, target_pose_matrix st1 ! 7,
                            target_pose_matrix st1 ! 11] \<rparr>)"

definition current_rotation_matrix_of :: "real list \<Rightarrow> real list" where
  "current_rotation_matrix_of target =
     [target ! 0, target ! 1, target ! 2,
      target ! 4, target ! 5, target ! 6,
      target ! 8, target ! 9, target ! 10]"

text \<open>
  The block under \<open>command_mutex\<close>: the staleness check, which writes the shared variables,
  then the copy of the two velocity commands into the locals \<open>linear_velocity\<close> and
  \<open>angular_velocity\<close>. The result is (linear_velocity, angular_velocity, state, stderr lines).
\<close>

definition read_velocity_cmd ::
  "int \<Rightarrow> state \<Rightarrow> real list \<times> real list \<times> state \<times> log_line list" where
  "read_velocity_cmd start st =
     (let time_since_last_msg = duration_cast_ms (start - last_message_time st);
          (st', out) =
            (if time_since_last_msg > timeout_duration \<and> \<not> command_supressed st
             then (st\<lparr> linear_velocity_cmd := [0, 0, 0],
                       angular_velocity_cmd := [0, 0, 0],
                       command_supressed := True \<rparr>, [stderr_timeout_warning])
             else (st, []))
      in (linear_velocity_cmd st', angular_velocity_cmd st', st', out))"

text \<open>Tool-frame axes: forward, left, up are z, y, -x.\<close>

definition tcp_remap :: "real list \<Rightarrow> real list" where
  "tcp_remap v = [- (v ! 2), v ! 1, v ! 0]"

text \<open>The loop \<open>linear_velocity[i] *= max_linear_velocity; angular_velocity[i] *= max_angular_velocity\<close>.\<close>

definition scale_velocity :: "config \<Rightarrow> real list \<times> real list \<Rightarrow> real list \<times> real list" where
  "scale_velocity cfg =
     fold (\<lambda>i (linear_velocity, angular_velocity).
             (linear_velocity[i := linear_velocity ! i * max_linear_velocity cfg],
              angular_velocity[i := angular_velocity ! i * max_angular_velocity cfg]))
          [0..<3]"

text \<open>The remapping (with \<open>useTCPMove\<close>) followed by the scaling.\<close>

definition scaled_velocity :: "config \<Rightarrow> real list \<Rightarrow> real list \<Rightarrow> real list \<times> real list" where
  "scaled_velocity cfg linear_velocity angular_velocity =
     scale_velocity cfg
       (if useTCPMove cfg then (tcp_remap linear_velocity, tcp_remap angular_velocity)
        else (linear_velocity, angular_velocity))"

text \<open>The loops \<open>delta_position[i] = linear_velocity[i] * dt\<close> and
  \<open>delta_rotation_vector[i] = angular_velocity[i] * dt\<close>.\<close>

definition times_dt :: "real list \<Rightarrow> real list" where
  "times_dt v = fold (\<lambda>i delta. delta[i := v ! i * dt]) [0..<3] (replicate 3 0)"

text \<open>The double loop that turns a vector of the tool frame into the base frame with the
  current rotation matrix.\<close>

definition rotate_into_base :: "real list \<Rightarrow> real list \<Rightarrow> real list" where
  "rotate_into_base current_rotation_matrix delta =
     fold (\<lambda>i. fold (\<lambda>j transformed.
             transformed[i := transformed ! i + current_rotation_matrix ! (i * 3 + j) * delta ! j])
           [0..<3])
       [0..<3] [0, 0, 0]"

definition delta_position_of :: "config \<Rightarrow> real list \<Rightarrow> real list \<Rightarrow> real list" where
  "delta_position_of cfg current_rotation_matrix linear_velocity =
     (let delta_position = times_dt linear_velocity
      in if useTCPMove cfg then rotate_into_base current_rotation_matrix delta_position
         else delta_position)"

definition delta_rotation_vector_of :: "config \<Rightarrow> real list \<Rightarrow> real list \<Rightarrow> real list" where
  "delta_rotation_vector_of cfg current_rotation_matrix angular_velocity =
     (let delta_rotation_vector = times_dt angular_velocity
      in if useTCPMove cfg then rotate_into_base current_rotation_matrix delta_rotation_vector
         else delta_rotation_vector)"

definition add_translation :: "real list \<Rightarrow> real list \<Rightarrow> real list" where
  "add_translation target delta_position =
     (let t1 = target[3 := target ! 3 + delta_position ! 0];
          t2 = t1[7 := t1 ! 7 + delta_position ! 1]
      in t2[11 := t2 ! 11 + delta_position ! 2])"

definition rotation_angle :: "real list \<Rightarrow> real" where
  "rotation_angle delta_rotation_vector =
     sqrt (delta_rotation_vector ! 0 * delta_rotation_vector ! 0 +
           delta_rotation_vector ! 1 * delta_rotation_vector ! 1 +
           delta_rotation_vector ! 2 * delta_rotation_vector ! 2)"

text \<open>\<open>delta_rotation_matrix\<close>: the identity, replaced by the matrix of the Rodrigues formula
  when the angle is above 1e-6.\<close>

definition delta_rotation_matrix_of :: "real list \<Rightarrow> real list" where
  "delta_rotation_matrix_of delta_rotation_vector =
     (let angle = rotation_angle delta_rotation_vector
      in if angle > 1 / 1000000 then
           (let axis = [delta_rotation_vector ! 0 / angle,
                        delta_rotation_vector ! 1 / angle,
                        delta_rotation_vector ! 2 / angle];
                c = cos angle;
                s = sin angle;
                t = 1 - c;
                x = axis ! 0;
                y = axis ! 1;
                z = axis ! 2
            in [t * x * x + c,     t * x * y - s * z, t * x * z + s * y,
                t * x * y + s * z, t * y * y + c,     t * y * z - s * x,
                t * x * z - s * y, t * y * z + s * x, t * z * z + c])
         else [1, 0, 0,
               0, 1, 0,
               0, 0, 1])"

text \<open>\<open>new_rotation_matrix\<close>: starts at zero, entry \<open>i * 3 + j\<close> receives
  \<open>delta_rotation_matrix[i * 3 + k] * current_rotation_matrix[k * 3 + j]\<close> for \<open>k = 0 .. 2\<close>.\<close>

definition new_rotation_matrix_of :: "real list \<Rightarrow> real list \<Rightarrow> real list" where
  "new_rotation_matrix_of delta_rotation_matrix current_rotation_matrix =
     fold (\<lambda>i. fold (\<lambda>j. fold (\<lambda>k new_rotation_matrix.
             new_rotation_matrix[i * 3 + j :=
               new_rotation_matrix ! (i * 3 + j) +
               delta_rotation_matrix ! (i * 3 + k) * current_rotation_matrix ! (k * 3 + j)])
           [0..<3]) [0..<3])
       [0..<3] (replicate 9 0)"

definition write_rotation :: "real list \<Rightarrow> real list \<Rightarrow> real list" where
  "write_rotation target new_rotation_matrix =
     target[0 := new_rotation_matrix ! 0, 1 := new_rotation_matrix ! 1, 2 := new_rotation_matrix ! 2,
            4 := new_rotation_matrix ! 3, 5 := new_rotation_matrix ! 4, 6 := new_rotation_matrix ! 5,
            8 := new_rotation_matrix ! 6, 9 := new_rotation_matrix ! 7, 10 := new_rotation_matrix ! 8]"

text \<open>
  The integration step of \<open>callback_cart\<close>, from the two velocities read under the lock and
  the target of the previous call to the new target.
\<close>

definition integrate :: "config \<Rightarrow> real list \<Rightarrow> real list \<Rightarrow> real list \<Rightarrow> real list" where
  "integrate cfg linear_velocity angular_velocity target =
     (let current_rotation_matrix = current_rotation_matrix_of target;
          (linear_velocity', angular_velocity') = scaled_velocity cfg linear_velocity angular_velocity;
          delta_position = delta_position_of cfg current_rotation_matrix linear_velocity';
          target' = add_translation target delta_position;
          delta_rotation_vector =
            delta_rotation_vector_of cfg current_rotation_matrix angular_velocity';
          delta_rotation_matrix = delta_rotation_matrix_of delta_rotation_vector;
          new_rotation_matrix = new_rotation_matrix_of delta_rotation_matrix current_rotation_matrix
      in write_rotation target' new_rotation_matrix)"

text \<open>\<open>callback_cart\<close>: the returned transform, the state after the call and the lines on
  \<open>std::cerr\<close>.\<close>

definition callback_cart ::
  "config \<Rightarrow> (real list \<Rightarrow> real list) \<Rightarrow> tick_input \<Rightarrow> state \<Rightarrow> real list \<times> state \<times> log_line list" where
  "callback_cart cfg postureToTransArray inp st =
     (let st1 = update_current_pose inp st
      in if cmdType cfg = pose_mat then
           (let st2 = st1\<lparr> target_pose_matrix := pose_matrix_cmd st1 \<rparr>
            in (target_pose_matrix st2, st2, []))
         else
           (let st2 = motion_start cfg postureToTransArray inp st1;
                (linear_velocity, angular_velocity, st3, out) =
                   read_velocity_cmd (callback_start inp) st2;
                st4 = st3\<lparr> target_pose_matrix :=
                             integrate cfg linear_velocity angular_velocity (target_pose_matrix st3) \<rparr>;
                st5 = st4\<lparr> last_pos := curr_pos st4 \<rparr>
            in (target_pose_matrix st5, st5, out)))"

text \<open>
  The control loop registered in \<open>main\<close>: \<open>callback_joint\<close> when \<open>cmdType\<close> is \<open>joint_pose\<close>,
  \<open>callback_cart\<close> otherwise. \<open>tick\<close> is the state after one call, with the lines the call
  wrote to \<open>std::cerr\<close>.
\<close>

definition tick :: "config \<Rightarrow> (real list \<Rightarrow> real list) \<Rightarrow> tick_input \<Rightarrow> state \<Rightarrow> state \<times> log_line list" where
  "tick cfg postureToTransArray inp st =
     (if cmdType cfg = joint_pose then (snd (callback_joint inp st), [])
      else snd (callback_cart cfg postureToTransArray inp st))"

section \<open>Runs of the receiver and the control loop\<close>

text \<open>
  A run is a sequence of events on the shared variables: a message handled by the receiver
  (its block under \<open>command_mutex\<close> is one step) or a call of the registered callback.
  \<open>callback_cart\<close> touches the command variables in one block under the same mutex, so
  every interleaving of the receiver with \<open>callback_cart\<close> is such a sequence; a message that
  is handled after the callback has read the clock is a \<open>Recv\<close> before the \<open>Tick\<close> with a later
  time. The run stops at the first exception of the receiver.
\<close>

datatype event = Recv int parse_result | Tick tick_input

fun run ::
  "config \<Rightarrow> (real list \<Rightarrow> real list) \<Rightarrow> event list \<Rightarrow> state \<Rightarrow> exception + (state \<times> log_line list)" where
  "run cfg P [] st = Inr (st, [])"
| "run cfg P (Recv current_time msg # evs) st =
     (case zmq_receiver_step current_time msg st of
        Inl e \<Rightarrow> Inl e
      | Inr (st', out) \<Rightarrow>
          (case run cfg P evs st' of
             Inl e \<Rightarrow> Inl e
           | Inr (st'', out') \<Rightarrow> Inr (st'', out @ out')))"
| "run cfg P (Tick inp # evs) st =
     (case tick cfg P inp st of
        (st', out) \<Rightarrow>
          (case run cfg P evs st' of
             Inl e \<Rightarrow> Inl e
           | Inr (st'', out') \<Rightarrow> Inr (st'', out @ out')))"

fun ticks_of :: "event list \<Rightarrow> nat" where
  "ticks_of [] = 0"
| "ticks_of (Recv current_time msg # evs) = ticks_of evs"
| "ticks_of (Tick inp # evs) = Suc (ticks_of evs)"

text \<open>
  The two locals \<open>linear_velocity\<close> and \<open>angular_velocity\<close> of one call of \<open>callback_cart\<close> as
  they leave the block under \<open>command_mutex\<close>: the velocity the call integrates.
\<close>

definition effective_velocity ::
  "config \<Rightarrow> (real list \<Rightarrow> real list) \<Rightarrow> tick_input \<Rightarrow> state \<Rightarrow> real list \<times> real list" where
  "effective_velocity cfg P inp st =
     (case read_velocity_cmd (callback_start inp) (motion_start cfg P inp (update_current_pose inp st)) of
        (linear_velocity, angular_velocity, st', out) \<Rightarrow> (linear_velocity, angular_velocity))"

section \<open>Vocabulary of the properties\<close>

text \<open>Kinds of events in a run.\<close>

fun is_tick :: "event \<Rightarrow> bool" where
  "is_tick (Tick inp) = True"
| "is_tick (Recv current_time msg) = False"

text \<open>A message that takes the \<open>pose_matrix\<close> branch of the receiver.\<close>

fun ingests_pose :: "event \<Rightarrow> bool" where
  "ingests_pose (Tick inp) = False"
| "ingests_pose (Recv current_time parse_failure) = False"
| "ingests_pose (Recv current_time (parse_ok j)) =
     (\<not> (contains j ''linear_velocity'' \<and> contains j ''angular_velocity'') \<and> contains j ''pose_matrix'')"

text \<open>The JSON text \<open>{"linear_velocity": [..], "angular_velocity": [..]}\<close> as a value.\<close>

definition velocity_message :: "real list \<Rightarrow> real list \<Rightarrow> json" where
  "velocity_message linear_velocity angular_velocity =
     JObject [(''linear_velocity'', JArray (map JNumber linear_velocity)),
              (''angular_velocity'', JArray (map JNumber angular_velocity))]"

text \<open>An event of a run in which the only command sent is the unit velocity along x.\<close>

fun unit_x_event :: "event \<Rightarrow> bool" where
  "unit_x_event (Tick inp) = True"
| "unit_x_event (Recv current_time msg) = (msg = parse_ok (velocity_message [1, 0, 0] [0, 0, 0]))"

text \<open>The command is fresh at every call of the callback: the call starts at most
  \<open>timeout_duration\<close> whole milliseconds after the latest message before it, \<open>received\<close> being
  the time of the latest message before the run.\<close>

fun fresh_run :: "event list \<Rightarrow> int \<Rightarrow> bool" where
  "fresh_run [] received = True"
| "fresh_run (Recv current_time msg # evs) received = fresh_run evs current_time"
| "fresh_run (Tick inp # evs) received =
     (duration_cast_ms (callback_start inp - received) \<le> timeout_duration \<and> fresh_run evs received)"

text \<open>Example inputs: the configuration of the source switched to velocity commands, a
  flange pose turned a quarter about x, a state that holds the unit velocity along x, an
  observation of the robot at a given clock reading.\<close>

definition velocity_config :: config where
  "velocity_config = main_config\<lparr> cmdType := xyzrpy_vel \<rparr>"

definition quarter_turn_pose :: "real list" where
  "quarter_turn_pose = [1, 0, 0, 1 / 2,
                        0, 0, - 1, 0,
                        0, 1, 0, 2 / 5,
                        0, 0, 0, 1]"

definition moving_state :: state where
  "moving_state = (declared_state 0)\<lparr> linear_velocity_cmd := [1, 0, 0],
                                       pose_matrix_cmd := quarter_turn_pose,
                                       target_pose_matrix := quarter_turn_pose \<rparr>"

definition observed_at :: "int \<Rightarrow> tick_input" where
  "observed_at t = \<lparr> callback_start = t, posture = [1 / 2, 0, 2 / 5, 0, 0, 0],
                     jointPos = [0, 0, 0, 0, 0, 0, 0] \<rparr>"

text \<open>The \<open>delta_rotation_vector\<close> of one call of \<open>callback_cart\<close>, as it reaches the
  computation of the angle.\<close>

definition delta_rotation_vector_in_call ::
  "config \<Rightarrow> (real list \<Rightarrow> real list) \<Rightarrow> tick_input \<Rightarrow> state \<Rightarrow> real list" where
  "delta_rotation_vector_in_call cfg P inp st =
     (case read_velocity_cmd (callback_start inp) (motion_start cfg P inp (update_current_pose inp st)) of
        (linear_velocity, angular_velocity, st', out) \<Rightarrow>
          delta_rotation_vector_of cfg (current_rotation_matrix_of (target_pose_matrix st'))
            (snd (scaled_velocity cfg linear_velocity angular_velocity)))"

text \<open>
  The mathematics the rotation update is compared with. A 3-vector has the Euclidean norm
  \<open>vector_norm\<close>; \<open>unit_vector\<close> divides it by its norm. The Rodrigues matrix of a unit axis
  \<open>k\<close> and an angle \<open>a\<close> is \<open>cos a * I + sin a * K + (1 - cos a) * k k\<^sup>T\<close>, where \<open>K\<close> is the
  cross-product matrix of \<open>k\<close>; \<open>rodrigues k a i j\<close> is its entry in row \<open>i\<close>, column \<open>j\<close>.
\<close>

definition vector_norm :: "real list \<Rightarrow> real" where
  "vector_norm v = sqrt (\<Sum>i<3. (v ! i)\<^sup>2)"

definition unit_vector :: "real list \<Rightarrow> real list" where
  "unit_vector v = map (\<lambda>x. x / vector_norm v) v"

definition cross_product_matrix :: "real list \<Rightarrow> nat \<Rightarrow> nat \<Rightarrow> real" where
  "cross_product_matrix k i j =
     (if (i, j) = (0, 1) then - (k ! 2) else if (i, j) = (0, 2) then k ! 1
      else if (i, j) = (1, 0) then k ! 2 else if (i, j) = (1, 2) then - (k ! 0)
      else if (i, j) = (2, 0) then - (k ! 1) else if (i, j) = (2, 1) then k ! 0
      else 0)"

definition rodrigues :: "real list \<Rightarrow> real \<Rightarrow> nat \<Rightarrow> nat \<Rightarrow> real" where
  "rodrigues k a i j =
     cos a * (if i = j then 1 else 0) + sin a * cross_product_matrix k i j +
     (1 - cos a) * (k ! i * k ! j)"

text \<open>The entry in row \<open>i\<close>, column \<open>j\<close> of the product \<open>A B\<close> of two 4x4 matrices stored row by
  row.\<close>

definition product_entry :: "real list \<Rightarrow> real list \<Rightarrow> nat \<Rightarrow> nat \<Rightarrow> real" where
  "product_entry A B i j = (\<Sum>k<4. A ! (i * 4 + k) * B ! (k * 4 + j))"

text \<open>A state that holds the top angular velocity about z and no linear velocity.\<close>

definition turning_state :: state where
  "turning_state = moving_state\<lparr> linear_velocity_cmd := [0, 0, 0], angular_velocity_cmd := [0, 0, 1] \<rparr>"

section \<open>Locks and shared variables\<close>

text \<open>
  The two mutexes of \<open>main\<close> and the variables that more than one thread touches. The
  command variables are declared under \<open>command_mutex\<close>, the two mirrors of the observed
  state under \<open>pose_mutex\<close>; \<open>guard_of\<close> records which mutex the program takes around each
  variable where it takes one.
\<close>

datatype mutex = command_mutex | pose_mutex

datatype shared_variable =
    Linear_velocity_cmd | Angular_velocity_cmd | Pose_matrix_cmd | Joint_position_cmd
  | Command_supressed | Last_message_time | Current_posture | Current_joint

fun guard_of :: "shared_variable \<Rightarrow> mutex" where
  "guard_of Current_posture = pose_mutex"
| "guard_of Current_joint = pose_mutex"
| "guard_of v = command_mutex"

text \<open>
  What a thread does to the locks and the shared variables, in program order. A
  \<open>std::lock_guard\<close> is a \<open>Lock\<close> where it is declared and an \<open>Unlock\<close> at the end of its block.
\<close>

datatype access = Lock mutex | Unlock mutex | Read shared_variable | Write shared_variable

text \<open>\<open>callback_joint\<close>: its two blocks are plain braces, without a \<open>lock_guard\<close>.\<close>

definition callback_joint_accesses :: "access list" where
  "callback_joint_accesses =
     [Write Current_posture, Write Current_joint, Read Joint_position_cmd]"

text \<open>\<open>callback_cart\<close>. \<open>timed_out\<close> and \<open>supressed\<close> are the outcomes of the two tests of the
  staleness check, the second of which is evaluated only when the first holds.\<close>

definition callback_cart_accesses :: "CmdType \<Rightarrow> bool \<Rightarrow> bool \<Rightarrow> access list" where
  "callback_cart_accesses cmd timed_out supressed =
     [Lock pose_mutex, Write Current_posture, Write Current_joint, Unlock pose_mutex] @
     (if cmd = pose_mat then [Lock command_mutex, Read Pose_matrix_cmd, Unlock command_mutex]
      else
        [Lock command_mutex, Read Last_message_time] @
        (if timed_out then
           Read Command_supressed #
           (if \<not> supressed
            then [Write Linear_velocity_cmd, Write Angular_velocity_cmd, Write Command_supressed]
            else [])
         else []) @
        [Read Linear_velocity_cmd, Read Angular_velocity_cmd, Unlock command_mutex])"

text \<open>The \<open>joint_position\<close> branch of \<open>zmq_receiver\<close>, and \<open>zmq_sender\<close>.\<close>

definition zmq_receiver_joint_accesses :: "access list" where
  "zmq_receiver_joint_accesses =
     [Lock command_mutex, Write Joint_position_cmd, Write Joint_position_cmd,
      Write Command_supressed, Write Last_message_time, Unlock command_mutex]"

definition zmq_sender_accesses :: "CmdType \<Rightarrow> access list" where
  "zmq_sender_accesses cmd =
     (if cmd = xyzrpy_vel \<or> cmd = pose_mat
      then [Lock pose_mutex, Read Current_posture, Unlock pose_mutex]
      else if cmd = joint_pose then [Lock pose_mutex, Read Current_joint, Unlock pose_mutex]
      else [])"

text \<open>Every read and write of a shared variable is made while the thread holds the mutex
  of the variable; \<open>held\<close> are the mutexes held at the start.\<close>

fun guarded :: "mutex list \<Rightarrow> access list \<Rightarrow> bool" where
  "guarded held [] = True"
| "guarded held (Lock m # as) = guarded (m # held) as"
| "guarded held (Unlock m # as) = guarded (removeAll m held) as"
| "guarded held (Read v # as) = (guard_of v \<in> set held \<and> guarded held as)"
| "guarded held (Write v # as) = (guard_of v \<in> set held \<and> guarded held as)"

text \<open>
  The statements of the \<open>joint_position\<close> branch between the \<open>lock_guard\<close> and the end of its
  block, one state change each: \<open>joint_position_cmd.clear()\<close>, the seven \<open>push_back\<close>s that
  \<open>std::copy\<close> makes through the \<open>back_inserter\<close>, and the two assignments.
\<close>

definition joint_position_write_steps :: "real list \<Rightarrow> int \<Rightarrow> (state \<Rightarrow> state) list" where
  "joint_position_write_steps joint_position current_time =
     (\<lambda>st. st\<lparr> joint_position_cmd := [] \<rparr>) #
     map (\<lambda>x st. st\<lparr> joint_position_cmd := joint_position_cmd st @ [x] \<rparr>) joint_position @
     [\<lambda>st. st\<lparr> command_supressed := True \<rparr>,
      \<lambda>st. st\<lparr> last_message_time := current_time \<rparr>]"

definition run_steps :: "(state \<Rightarrow> state) list \<Rightarrow> state \<Rightarrow> state" where
  "run_steps steps st = fold (\<lambda>step s. step s) steps st"

text \<open>A state in joint mode after start-up: the joint command is the observed joint vector.\<close>

definition joint_state :: state where
  "joint_state =
     seed_targets (\<lambda>p. quarter_turn_pose) [1 / 2, 0, 2 / 5, 0, 0, 0] [0, 1 / 2, 0, 1, 0, 3 / 2, 0]
       (declared_state 0)"

section \<open>Auxiliary facts\<close>

subsection \<open>The loops on arrays of known size\<close>

lemma upt_0_3: "[0..<3] = [0, 1, 2]"
  by (simp add: upt_rec)

lemma upt_0_4: "[0..<4] = [0, 1, 2, 3]"
  by (simp add: upt_rec)

lemma length_3_elems:
  assumes "length xs = 3"
  obtains a b c where "xs = [a, b, c]"
  using assms by (auto simp: length_Suc_conv eval_nat_numeral)

lemma length_9_elems:
  assumes "length xs = 9"
  obtains a b c d e f g h i where "xs = [a, b, c, d, e, f, g, h, i]"
  using assms by (auto simp: length_Suc_conv eval_nat_numeral)

lemma length_16_elems:
  assumes "length xs = 16"
  obtains a0 a1 a2 a3 a4 a5 a6 a7 a8 a9 a10 a11 a12 a13 a14 a15
  where "xs = [a0, a1, a2, a3, a4, a5, a6, a7, a8, a9, a10, a11, a12, a13, a14, a15]"
  using assms by (auto simp: length_Suc_conv eval_nat_numeral)

lemma times_dt_elems: "times_dt [a, b, c] = [a * dt, b * dt, c * dt]"
  by (simp add: times_dt_def upt_0_3 eval_nat_numeral)

lemma scale_velocity_elems:
  "scale_velocity cfg ([a, b, c], [d, e, f]) =
     ([a * max_linear_velocity cfg, b * max_linear_velocity cfg, c * max_linear_velocity cfg],
      [d * max_angular_velocity cfg, e * max_angular_velocity cfg, f * max_angular_velocity cfg])"
  by (simp add: scale_velocity_def upt_0_3)

lemma rotate_into_base_elems:
  "rotate_into_base [r0, r1, r2, r3, r4, r5, r6, r7, r8] [a, b, c] =
     [r0 * a + r1 * b + r2 * c, r3 * a + r4 * b + r5 * c, r6 * a + r7 * b + r8 * c]"
  by (simp add: rotate_into_base_def upt_0_3)

lemma new_rotation_matrix_elems:
  "new_rotation_matrix_of [d0, d1, d2, d3, d4, d5, d6, d7, d8] [r0, r1, r2, r3, r4, r5, r6, r7, r8] =
     [d0 * r0 + d1 * r3 + d2 * r6, d0 * r1 + d1 * r4 + d2 * r7, d0 * r2 + d1 * r5 + d2 * r8,
      d3 * r0 + d4 * r3 + d5 * r6, d3 * r1 + d4 * r4 + d5 * r7, d3 * r2 + d4 * r5 + d5 * r8,
      d6 * r0 + d7 * r3 + d8 * r6, d6 * r1 + d7 * r4 + d8 * r7, d6 * r2 + d7 * r5 + d8 * r8]"
  by (simp add: new_rotation_matrix_of_def upt_0_3 eval_nat_numeral)

subsection \<open>A call of the callback with zero velocity\<close>

lemma scaled_velocity_zero: "scaled_velocity cfg [0, 0, 0] [0, 0, 0] = ([0, 0, 0], [0, 0, 0])"
  by (simp add: scaled_velocity_def tcp_remap_def scale_velocity_elems)

lemma delta_position_zero:
  "delta_position_of cfg (current_rotation_matrix_of t) [0, 0, 0] = [0, 0, 0]"
  by (simp add: delta_position_of_def times_dt_elems current_rotation_matrix_of_def
      rotate_into_base_elems Let_def)

lemma delta_rotation_vector_zero:
  "delta_rotation_vector_of cfg (current_rotation_matrix_of t) [0, 0, 0] = [0, 0, 0]"
  by (simp add: delta_rotation_vector_of_def times_dt_elems current_rotation_matrix_of_def
      rotate_into_base_elems Let_def)

lemma delta_rotation_matrix_zero: "delta_rotation_matrix_of [0, 0, 0] = [1, 0, 0, 0, 1, 0, 0, 0, 1]"
  by (simp add: delta_rotation_matrix_of_def rotation_angle_def)

lemma identity_times_current:
  "new_rotation_matrix_of [1, 0, 0, 0, 1, 0, 0, 0, 1] (current_rotation_matrix_of t) =
     current_rotation_matrix_of t"
  by (simp add: current_rotation_matrix_of_def new_rotation_matrix_elems)

lemma write_rotation_same: "write_rotation t (current_rotation_matrix_of t) = t"
  by (simp add: write_rotation_def current_rotation_matrix_of_def)

lemma current_rotation_add_translation:
  "current_rotation_matrix_of (add_translation t d) = current_rotation_matrix_of t"
  by (simp add: current_rotation_matrix_of_def add_translation_def Let_def)

lemma write_rotation_add_translation:
  "write_rotation (add_translation t d) (current_rotation_matrix_of t) = add_translation t d"
  using write_rotation_same [of "add_translation t d"]
  by (simp add: current_rotation_add_translation)

lemma add_translation_zero: "add_translation t [0, 0, 0] = t"
  by (simp add: add_translation_def)

lemma integrate_zero: "integrate cfg [0, 0, 0] [0, 0, 0] t = t"
  by (simp add: integrate_def scaled_velocity_zero delta_position_zero delta_rotation_vector_zero
      delta_rotation_matrix_zero identity_times_current add_translation_zero write_rotation_same)

subsection \<open>The block under the command mutex\<close>

lemma read_velocity_cmd_stale:
  assumes "duration_cast_ms (start - last_message_time st) > timeout_duration"
    and "\<not> command_supressed st"
  shows "read_velocity_cmd start st =
    ([0, 0, 0], [0, 0, 0],
     st\<lparr> linear_velocity_cmd := [0, 0, 0], angular_velocity_cmd := [0, 0, 0],
         command_supressed := True \<rparr>,
     [stderr_timeout_warning])"
  using assms by (simp add: read_velocity_cmd_def)

lemma read_velocity_cmd_quiet:
  assumes "\<not> duration_cast_ms (start - last_message_time st) > timeout_duration \<or> command_supressed st"
  shows "read_velocity_cmd start st = (linear_velocity_cmd st, angular_velocity_cmd st, st, [])"
  using assms by (auto simp add: read_velocity_cmd_def)

lemma motion_start_fields [simp]:
  "linear_velocity_cmd (motion_start cfg P inp st) = linear_velocity_cmd st"
  "angular_velocity_cmd (motion_start cfg P inp st) = angular_velocity_cmd st"
  "command_supressed (motion_start cfg P inp st) = command_supressed st"
  "last_message_time (motion_start cfg P inp st) = last_message_time st"
  "pose_matrix_cmd (motion_start cfg P inp st) = pose_matrix_cmd st"
  "joint_position_cmd (motion_start cfg P inp st) = joint_position_cmd st"
  by (simp_all add: motion_start_def Let_def)

lemma motion_start_target [simp]:
  "useDesiredPose cfg \<Longrightarrow> target_pose_matrix (motion_start cfg P inp st) = target_pose_matrix st"
  by (simp add: motion_start_def Let_def)

lemma update_current_pose_fields [simp]:
  "linear_velocity_cmd (update_current_pose inp st) = linear_velocity_cmd st"
  "angular_velocity_cmd (update_current_pose inp st) = angular_velocity_cmd st"
  "command_supressed (update_current_pose inp st) = command_supressed st"
  "last_message_time (update_current_pose inp st) = last_message_time st"
  "pose_matrix_cmd (update_current_pose inp st) = pose_matrix_cmd st"
  "joint_position_cmd (update_current_pose inp st) = joint_position_cmd st"
  "target_pose_matrix (update_current_pose inp st) = target_pose_matrix st"
  by (simp_all add: update_current_pose_def)

lemma duration_cast_ms_numeral [simp]:
  "duration_cast_ms (numeral n) = numeral n div 1000000"
  by (simp add: duration_cast_ms_def signed_divide_int_def)

text \<open>The test of the staleness check in clock periods: the whole milliseconds are above 100
  exactly when at least 101 ms have passed.\<close>

lemma duration_cast_ms_nonneg: "0 \<le> d \<Longrightarrow> duration_cast_ms d = d div 1000000"
  by (simp add: duration_cast_ms_def signed_divide_int_def sgn_if)

lemma duration_cast_ms_neg: "d < 0 \<Longrightarrow> duration_cast_ms d \<le> 0"
  by (simp add: duration_cast_ms_def signed_divide_int_def sgn_if)

lemma duration_cast_ms_exceeds_timeout:
  "duration_cast_ms d > timeout_duration \<longleftrightarrow> d \<ge> 101000000"
proof (cases "0 \<le> d")
  case True
  have "101 \<le> d div 1000000 \<longleftrightarrow> 101000000 \<le> d"
  proof
    assume a: "101 \<le> d div 1000000"
    have "d = d div 1000000 * 1000000 + d mod 1000000" by simp
    moreover have "0 \<le> d mod 1000000" by simp
    ultimately have "d div 1000000 * 1000000 \<le> d" by linarith
    with a show "101000000 \<le> d" by linarith
  next
    assume "101000000 \<le> d"
    then have "101000000 div 1000000 \<le> d div 1000000" by (rule zdiv_mono1) simp
    then show "101 \<le> d div 1000000" by simp
  qed
  then show ?thesis
    using True by (simp add: duration_cast_ms_nonneg timeout_duration_def) linarith
next
  case False
  then have "duration_cast_ms d \<le> 0" by (simp add: duration_cast_ms_neg)
  with False show ?thesis by (simp add: timeout_duration_def)
qed

subsection \<open>The receiver\<close>

lemma get_elems_length: "get_elems n js = Inr xs \<Longrightarrow> length xs = n"
  by (induction n js arbitrary: xs rule: get_elems.induct) (auto split: sum.splits)

lemma get_array_length: "get_array n j = Inr xs \<Longrightarrow> length xs = n"
  by (cases j) (auto dest: get_elems_length)

lemma velocity_message_step:
  "zmq_receiver_step t (parse_ok (velocity_message [a, b, c] [d, e, f])) st =
     Inr (st\<lparr> linear_velocity_cmd := [a, b, c], angular_velocity_cmd := [d, e, f],
              command_supressed := False, last_message_time := t \<rparr>, [])"
  by (simp add: zmq_receiver_step_def velocity_message_def eval_nat_numeral)

text \<open>The value of \<open>command_supressed\<close> after each of the three branches.\<close>

lemma velocity_branch_flag:
  assumes "contains j ''linear_velocity'' \<and> contains j ''angular_velocity''"
    and "zmq_receiver_step t (parse_ok j) st = Inr (st', out)"
  shows "\<not> command_supressed st'"
  using assms by (auto simp: zmq_receiver_step_def split: sum.splits)

lemma pose_matrix_branch_flag:
  assumes "\<not> (contains j ''linear_velocity'' \<and> contains j ''angular_velocity'')"
    and "contains j ''pose_matrix''"
    and "zmq_receiver_step t (parse_ok j) st = Inr (st', out)"
  shows "\<not> command_supressed st'"
  using assms by (auto simp: zmq_receiver_step_def split: sum.splits)

lemma joint_position_branch_flag:
  assumes "\<not> (contains j ''linear_velocity'' \<and> contains j ''angular_velocity'')"
    and "\<not> contains j ''pose_matrix''" and "contains j ''joint_position''"
    and "zmq_receiver_step t (parse_ok j) st = Inr (st', out)"
  shows "command_supressed st'"
  using assms by (auto simp: zmq_receiver_step_def split: sum.splits)

text \<open>The transform a call returns is the target the call leaves in the state.\<close>

lemma callback_cart_returns_target:
  "fst (callback_cart cfg P inp st) = target_pose_matrix (fst (snd (callback_cart cfg P inp st)))"
  by (simp add: callback_cart_def Let_def split_beta)

subsection \<open>What changes \<open>pose_matrix_cmd\<close>\<close>

lemma callback_cart_pose_mat:
  "cmdType cfg = pose_mat \<Longrightarrow> callback_cart cfg P inp st =
     (pose_matrix_cmd st, (update_current_pose inp st)\<lparr> target_pose_matrix := pose_matrix_cmd st \<rparr>, [])"
  by (simp add: callback_cart_def)

lemma tick_pose_matrix_cmd: "pose_matrix_cmd (fst (tick cfg P inp st)) = pose_matrix_cmd st"
  by (auto simp: tick_def callback_cart_def callback_joint_def read_velocity_cmd_def Let_def
      split: prod.splits if_splits)

lemma zmq_receiver_step_pose_matrix_cmd:
  assumes "zmq_receiver_step t msg st = Inr (st', out)" and "\<not> ingests_pose (Recv t msg)"
  shows "pose_matrix_cmd st' = pose_matrix_cmd st"
  using assms
  by (cases msg) (auto simp: zmq_receiver_step_def split: if_splits sum.splits)

lemma run_pose_matrix_cmd:
  assumes "run cfg P evs st = Inr (st', out)" and "\<forall>e \<in> set evs. \<not> ingests_pose e"
  shows "pose_matrix_cmd st' = pose_matrix_cmd st"
  using assms
proof (induction evs arbitrary: st out)
  case Nil
  then show ?case by simp
next
  case (Cons e evs)
  show ?case
  proof (cases e)
    case (Recv t msg)
    with Cons.prems obtain st1 out1 out2 where
      s: "zmq_receiver_step t msg st = Inr (st1, out1)" and r: "run cfg P evs st1 = Inr (st', out2)"
      by (auto split: sum.splits prod.splits)
    from Cons.prems Recv have "\<not> ingests_pose (Recv t msg)" by simp
    with s have "pose_matrix_cmd st1 = pose_matrix_cmd st"
      by (rule zmq_receiver_step_pose_matrix_cmd)
    moreover from Cons.IH [OF r] Cons.prems have "pose_matrix_cmd st' = pose_matrix_cmd st1"
      by simp
    ultimately show ?thesis by simp
  next
    case (Tick inp)
    with Cons.prems obtain st1 out1 out2 where
      s: "tick cfg P inp st = (st1, out1)" and r: "run cfg P evs st1 = Inr (st', out2)"
      by (auto split: sum.splits prod.splits)
    from s have "pose_matrix_cmd st1 = pose_matrix_cmd st"
      using tick_pose_matrix_cmd [of cfg P inp st] by simp
    moreover from Cons.IH [OF r] Cons.prems have "pose_matrix_cmd st' = pose_matrix_cmd st1"
      by simp
    ultimately show ?thesis by simp
  qed
qed

subsection \<open>Calls of the callback after a timeout\<close>

lemma tick_quiet:
  assumes "cmdType cfg = xyzrpy_vel" and "command_supressed st"
    and "linear_velocity_cmd st = [0, 0, 0]" and "angular_velocity_cmd st = [0, 0, 0]"
  shows "snd (tick cfg P inp st) = [] \<and> command_supressed (fst (tick cfg P inp st)) \<and>
         linear_velocity_cmd (fst (tick cfg P inp st)) = [0, 0, 0] \<and>
         angular_velocity_cmd (fst (tick cfg P inp st)) = [0, 0, 0]"
  using assms by (simp add: tick_def callback_cart_def read_velocity_cmd_quiet)

lemma run_quiet:
  assumes "cmdType cfg = xyzrpy_vel" and "\<forall>e \<in> set evs. is_tick e" and "command_supressed st"
    and "linear_velocity_cmd st = [0, 0, 0]" and "angular_velocity_cmd st = [0, 0, 0]"
  shows "\<exists>st'. run cfg P evs st = Inr (st', []) \<and> command_supressed st' \<and>
         linear_velocity_cmd st' = [0, 0, 0] \<and> angular_velocity_cmd st' = [0, 0, 0]"
  using assms
proof (induction evs arbitrary: st)
  case Nil
  then show ?case by simp
next
  case (Cons e evs)
  from Cons.prems obtain inp where e: "e = Tick inp" by (cases e) auto
  obtain st1 out1 where t: "tick cfg P inp st = (st1, out1)" by (cases "tick cfg P inp st")
  with tick_quiet [OF Cons.prems(1,3,4,5), of P inp]
  have q: "out1 = []" "command_supressed st1" "linear_velocity_cmd st1 = [0, 0, 0]"
    "angular_velocity_cmd st1 = [0, 0, 0]" by simp_all
  from Cons.IH [OF Cons.prems(1) _ q(2,3,4)] Cons.prems(2)
  obtain st' where "run cfg P evs st1 = Inr (st', [])" "command_supressed st'"
    "linear_velocity_cmd st' = [0, 0, 0]" "angular_velocity_cmd st' = [0, 0, 0]" by auto
  with e t q show ?case by simp
qed

subsection \<open>Calls of the callback under the unit velocity along x\<close>

lemma add_translation_x: "add_translation t [a, 0, 0] = t[3 := t ! 3 + a]"
  by (simp add: add_translation_def Let_def)

lemma scaled_velocity_unit_x:
  "\<not> useTCPMove cfg \<Longrightarrow>
   scaled_velocity cfg [1, 0, 0] [0, 0, 0] = ([max_linear_velocity cfg, 0, 0], [0, 0, 0])"
  by (simp add: scaled_velocity_def scale_velocity_elems)

lemma integrate_unit_x:
  assumes "\<not> useTCPMove cfg"
  shows "integrate cfg [1, 0, 0] [0, 0, 0] t = t[3 := t ! 3 + max_linear_velocity cfg * dt]"
proof -
  have "delta_position_of cfg (current_rotation_matrix_of t) [max_linear_velocity cfg, 0, 0] =
        [max_linear_velocity cfg * dt, 0, 0]"
    using assms by (simp add: delta_position_of_def times_dt_elems)
  then show ?thesis
    using assms write_rotation_add_translation [of t "[max_linear_velocity cfg * dt, 0, 0]"]
    by (simp add: integrate_def scaled_velocity_unit_x delta_rotation_vector_zero
        delta_rotation_matrix_zero identity_times_current add_translation_x)
qed

lemma tick_unit_x:
  assumes "cmdType cfg = xyzrpy_vel" and "\<not> useTCPMove cfg" and "useDesiredPose cfg"
    and "linear_velocity_cmd st = [1, 0, 0]" and "angular_velocity_cmd st = [0, 0, 0]"
    and "duration_cast_ms (callback_start inp - last_message_time st) \<le> timeout_duration"
  shows "snd (tick cfg P inp st) = [] \<and>
         linear_velocity_cmd (fst (tick cfg P inp st)) = [1, 0, 0] \<and>
         angular_velocity_cmd (fst (tick cfg P inp st)) = [0, 0, 0] \<and>
         last_message_time (fst (tick cfg P inp st)) = last_message_time st \<and>
         target_pose_matrix (fst (tick cfg P inp st)) =
           (target_pose_matrix st)[3 := target_pose_matrix st ! 3 + max_linear_velocity cfg * dt]"
  using assms
  by (simp add: tick_def callback_cart_def read_velocity_cmd_quiet integrate_unit_x)

lemma run_unit_x:
  assumes "cmdType cfg = xyzrpy_vel" and "\<not> useTCPMove cfg" and "useDesiredPose cfg"
    and "\<forall>e \<in> set evs. unit_x_event e"
    and "fresh_run evs (last_message_time st)"
    and "linear_velocity_cmd st = [1, 0, 0]" and "angular_velocity_cmd st = [0, 0, 0]"
    and "3 < length (target_pose_matrix st)"
  shows "\<exists>st'. run cfg P evs st = Inr (st', []) \<and>
           target_pose_matrix st' =
             (target_pose_matrix st)[3 := target_pose_matrix st ! 3 +
                                          real (ticks_of evs) * (max_linear_velocity cfg * dt)]"
  using assms(4-)
proof (induction evs arbitrary: st)
  case Nil
  then show ?case by simp
next
  case (Cons e evs)
  show ?case
  proof (cases e)
    case (Recv t msg)
    let ?st1 = "st\<lparr> linear_velocity_cmd := [1, 0, 0], angular_velocity_cmd := [0, 0, 0],
                     command_supressed := False, last_message_time := t \<rparr>"
    from Cons.prems(1) Recv have m: "msg = parse_ok (velocity_message [1, 0, 0] [0, 0, 0])"
      by simp
    have s: "zmq_receiver_step t msg st = Inr (?st1, [])"
      unfolding m by (rule velocity_message_step)
    from Cons.prems Recv have "\<exists>st'. run cfg P evs ?st1 = Inr (st', []) \<and>
        target_pose_matrix st' = (target_pose_matrix ?st1)[3 := target_pose_matrix ?st1 ! 3 +
           real (ticks_of evs) * (max_linear_velocity cfg * dt)]"
      by (intro Cons.IH) simp_all
    with s Recv show ?thesis by auto
  next
    case (Tick inp)
    let ?st1 = "fst (tick cfg P inp st)"
    from Cons.prems Tick
    have f: "duration_cast_ms (callback_start inp - last_message_time st) \<le> timeout_duration"
      and fr: "fresh_run evs (last_message_time st)" by simp_all
    note t = tick_unit_x [OF assms(1,2,3) Cons.prems(3,4) f, of P]
    from Cons.prems Tick t fr have "\<exists>st'. run cfg P evs ?st1 = Inr (st', []) \<and>
        target_pose_matrix st' = (target_pose_matrix ?st1)[3 := target_pose_matrix ?st1 ! 3 +
           real (ticks_of evs) * (max_linear_velocity cfg * dt)]"
      by (intro Cons.IH) simp_all
    then obtain st' where r: "run cfg P evs ?st1 = Inr (st', [])"
      and tg: "target_pose_matrix st' = (target_pose_matrix ?st1)[3 := target_pose_matrix ?st1 ! 3 +
           real (ticks_of evs) * (max_linear_velocity cfg * dt)]" by blast
    from tg t Cons.prems(5) have "target_pose_matrix st' =
        (target_pose_matrix st)[3 := target_pose_matrix st ! 3 +
           real (ticks_of (e # evs)) * (max_linear_velocity cfg * dt)]"
      using Tick by (simp add: algebra_simps)
    moreover from r t Tick have "run cfg P (e # evs) st = Inr (st', [])"
      by (cases "tick cfg P inp st") simp
    ultimately show ?thesis by blast
  qed
qed

lemma ticks_of_replicate: "ticks_of (replicate n (Tick inp)) = n"
  by (induction n) simp_all

lemma fresh_run_replicate:
  "duration_cast_ms (callback_start inp - received) \<le> timeout_duration \<Longrightarrow>
   fresh_run (replicate n (Tick inp)) received"
  by (induction n) simp_all

subsection \<open>Entries of matrix products\<close>

lemma sum_lessThan_3: "(\<Sum>k<3. f k) = f 0 + f 1 + f (2::nat)"
  by (simp add: eval_nat_numeral)

lemma sum_lessThan_4: "(\<Sum>k<4. f k) = f 0 + f 1 + f 2 + f (3::nat)"
  by (simp add: eval_nat_numeral)

lemma less_3_cases: "i < 3 \<Longrightarrow> i = 0 \<or> i = 1 \<or> i = (2::nat)"
  by auto

lemma less_4_cases: "i < 4 \<Longrightarrow> i = 0 \<or> i = 1 \<or> i = 2 \<or> i = (3::nat)"
  by auto

lemma tcp_in_base_elems:
  "tcp_in_base_of [a0, a1, a2, a3, a4, a5, a6, a7, a8, a9, a10, a11, a12, a13, a14, a15]
                  [b0, b1, b2, b3, b4, b5, b6, b7, b8, b9, b10, b11, b12, b13, b14, b15] =
  [a0 * b0 + a1 * b4 + a2 * b8 + a3 * b12, a0 * b1 + a1 * b5 + a2 * b9 + a3 * b13,
   a0 * b2 + a1 * b6 + a2 * b10 + a3 * b14, a0 * b3 + a1 * b7 + a2 * b11 + a3 * b15,
   a4 * b0 + a5 * b4 + a6 * b8 + a7 * b12, a4 * b1 + a5 * b5 + a6 * b9 + a7 * b13,
   a4 * b2 + a5 * b6 + a6 * b10 + a7 * b14, a4 * b3 + a5 * b7 + a6 * b11 + a7 * b15,
   a8 * b0 + a9 * b4 + a10 * b8 + a11 * b12, a8 * b1 + a9 * b5 + a10 * b9 + a11 * b13,
   a8 * b2 + a9 * b6 + a10 * b10 + a11 * b14, a8 * b3 + a9 * b7 + a10 * b11 + a11 * b15,
   a12 * b0 + a13 * b4 + a14 * b8 + a15 * b12, a12 * b1 + a13 * b5 + a14 * b9 + a15 * b13,
   a12 * b2 + a13 * b6 + a14 * b10 + a15 * b14, a12 * b3 + a13 * b7 + a14 * b11 + a15 * b15]"
  by (simp add: tcp_in_base_of_def upt_0_4 eval_nat_numeral)

lemma tcp_in_base_entry:
  assumes "length A = 16" and "length B = 16" and "i < 4" and "j < 4"
  shows "tcp_in_base_of A B ! (i * 4 + j) = product_entry A B i j"
proof -
  from assms(1) obtain a0 a1 a2 a3 a4 a5 a6 a7 a8 a9 a10 a11 a12 a13 a14 a15 where
    A: "A = [a0, a1, a2, a3, a4, a5, a6, a7, a8, a9, a10, a11, a12, a13, a14, a15]"
    by (rule length_16_elems)
  from assms(2) obtain b0 b1 b2 b3 b4 b5 b6 b7 b8 b9 b10 b11 b12 b13 b14 b15 where
    B: "B = [b0, b1, b2, b3, b4, b5, b6, b7, b8, b9, b10, b11, b12, b13, b14, b15]"
    by (rule length_16_elems)
  from assms(3,4) less_4_cases have "i = 0 \<or> i = 1 \<or> i = 2 \<or> i = 3" "j = 0 \<or> j = 1 \<or> j = 2 \<or> j = 3"
    by blast+
  then show ?thesis
    unfolding A B tcp_in_base_elems product_entry_def sum_lessThan_4
    by (elim disjE) simp_all
qed

subsection \<open>The rotation update\<close>

lemma rotation_angle_is_norm: "rotation_angle v = vector_norm v"
  by (simp add: rotation_angle_def vector_norm_def sum_lessThan_3 power2_eq_square)

lemma length_delta_rotation_matrix: "length (delta_rotation_matrix_of v) = 9"
  by (simp add: delta_rotation_matrix_of_def Let_def)

lemma length_times_dt: "length (times_dt v) = 3"
  by (simp add: times_dt_def upt_0_3)

lemma length_rotate_into_base: "length (rotate_into_base R d) = 3"
  by (simp add: rotate_into_base_def upt_0_3)

lemma length_delta_rotation_vector: "length (delta_rotation_vector_of cfg R av) = 3"
  by (simp add: delta_rotation_vector_of_def Let_def length_times_dt length_rotate_into_base)

lemma length_delta_position: "length (delta_position_of cfg R lv) = 3"
  by (simp add: delta_position_of_def Let_def length_times_dt length_rotate_into_base)

lemma add_translation_elems:
  "add_translation [a0, a1, a2, a3, a4, a5, a6, a7, a8, a9, a10, a11, a12, a13, a14, a15] [x, y, z] =
     [a0, a1, a2, a3 + x, a4, a5, a6, a7 + y, a8, a9, a10, a11 + z, a12, a13, a14, a15]"
  by (simp add: add_translation_def)

lemma write_rotation_elems:
  "write_rotation [a0, a1, a2, a3, a4, a5, a6, a7, a8, a9, a10, a11, a12, a13, a14, a15]
                  [n0, n1, n2, n3, n4, n5, n6, n7, n8] =
     [n0, n1, n2, a3, n3, n4, n5, a7, n6, n7, n8, a11, a12, a13, a14, a15]"
  by (simp add: write_rotation_def)

text \<open>The rotation entries of the integrated target are the entries of the product of
  \<open>delta_rotation_matrix\<close> with the rotation submatrix of the previous target.\<close>

lemma integrate_rotation_entry:
  assumes "length t = 16" and "i < 3" and "j < 3"
  shows "integrate cfg lv av t ! (i * 4 + j) =
         (\<Sum>k<3. delta_rotation_matrix_of
                    (delta_rotation_vector_of cfg (current_rotation_matrix_of t)
                       (snd (scaled_velocity cfg lv av))) ! (i * 3 + k) * t ! (k * 4 + j))"
proof -
  let ?D = "delta_rotation_matrix_of
              (delta_rotation_vector_of cfg (current_rotation_matrix_of t)
                 (snd (scaled_velocity cfg lv av)))"
  let ?dp = "delta_position_of cfg (current_rotation_matrix_of t) (fst (scaled_velocity cfg lv av))"
  from assms(1) obtain a0 a1 a2 a3 a4 a5 a6 a7 a8 a9 a10 a11 a12 a13 a14 a15 where
    t: "t = [a0, a1, a2, a3, a4, a5, a6, a7, a8, a9, a10, a11, a12, a13, a14, a15]"
    by (rule length_16_elems)
  obtain d0 d1 d2 d3 d4 d5 d6 d7 d8 where D: "?D = [d0, d1, d2, d3, d4, d5, d6, d7, d8]"
    using length_delta_rotation_matrix by (rule length_9_elems)
  obtain x y z where dp: "?dp = [x, y, z]"
    using length_delta_position by (rule length_3_elems)
  have R: "current_rotation_matrix_of t = [a0, a1, a2, a4, a5, a6, a8, a9, a10]"
    by (simp add: t current_rotation_matrix_of_def)
  have "integrate cfg lv av t =
        write_rotation (add_translation t ?dp) (new_rotation_matrix_of ?D (current_rotation_matrix_of t))"
    by (simp add: integrate_def Let_def split: prod.splits)
  also have "\<dots> =
     [d0 * a0 + d1 * a4 + d2 * a8, d0 * a1 + d1 * a5 + d2 * a9, d0 * a2 + d1 * a6 + d2 * a10, a3 + x,
      d3 * a0 + d4 * a4 + d5 * a8, d3 * a1 + d4 * a5 + d5 * a9, d3 * a2 + d4 * a6 + d5 * a10, a7 + y,
      d6 * a0 + d7 * a4 + d8 * a8, d6 * a1 + d7 * a5 + d8 * a9, d6 * a2 + d7 * a6 + d8 * a10, a11 + z,
      a12, a13, a14, a15]"
    unfolding D dp
    unfolding R new_rotation_matrix_elems
    by (simp only: t add_translation_elems write_rotation_elems)
  finally have I: "integrate cfg lv av t =
     [d0 * a0 + d1 * a4 + d2 * a8, d0 * a1 + d1 * a5 + d2 * a9, d0 * a2 + d1 * a6 + d2 * a10, a3 + x,
      d3 * a0 + d4 * a4 + d5 * a8, d3 * a1 + d4 * a5 + d5 * a9, d3 * a2 + d4 * a6 + d5 * a10, a7 + y,
      d6 * a0 + d7 * a4 + d8 * a8, d6 * a1 + d7 * a5 + d8 * a9, d6 * a2 + d7 * a6 + d8 * a10, a11 + z,
      a12, a13, a14, a15]" .
  from assms(2,3) less_3_cases have "i = 0 \<or> i = 1 \<or> i = 2" "j = 0 \<or> j = 1 \<or> j = 2"
    by blast+
  then show ?thesis
    unfolding I D sum_lessThan_3
    by (elim disjE) (simp_all add: t)
qed

text \<open>Above the threshold \<open>delta_rotation_matrix\<close> is the Rodrigues matrix of the normalised
  vector and its norm; at or below it, the identity.\<close>

lemma delta_rotation_matrix_rodrigues:
  assumes "length v = 3" and "vector_norm v > 1 / 1000000" and "i < 3" and "k < 3"
  shows "delta_rotation_matrix_of v ! (i * 3 + k) = rodrigues (unit_vector v) (vector_norm v) i k"
proof -
  from assms(1) obtain a b c where v: "v = [a, b, c]" by (rule length_3_elems)
  from assms(3,4) less_3_cases have "i = 0 \<or> i = 1 \<or> i = 2" "k = 0 \<or> k = 1 \<or> k = 2"
    by blast+
  moreover from assms(2) have "vector_norm [a, b, c] \<noteq> 0" by (simp add: v)
  ultimately show ?thesis
    using assms(2)
    by (elim disjE)
      (simp_all add: delta_rotation_matrix_of_def rotation_angle_is_norm Let_def rodrigues_def
        cross_product_matrix_def unit_vector_def v field_simps)
qed

lemma delta_rotation_matrix_identity:
  assumes "vector_norm v \<le> 1 / 1000000"
  shows "delta_rotation_matrix_of v = [1, 0, 0, 0, 1, 0, 0, 0, 1]"
  using assms by (simp add: delta_rotation_matrix_of_def rotation_angle_is_norm Let_def)

lemma read_velocity_cmd_target [simp]:
  "target_pose_matrix (fst (snd (snd (read_velocity_cmd start st)))) = target_pose_matrix st"
  by (simp add: read_velocity_cmd_def Let_def)

lemma callback_cart_velocity:
  assumes "cmdType cfg = xyzrpy_vel" and "useDesiredPose cfg"
  shows "fst (callback_cart cfg P inp st) =
         integrate cfg (fst (effective_velocity cfg P inp st)) (snd (effective_velocity cfg P inp st))
           (target_pose_matrix st)"
    and "delta_rotation_vector_in_call cfg P inp st =
         delta_rotation_vector_of cfg (current_rotation_matrix_of (target_pose_matrix st))
           (snd (scaled_velocity cfg (fst (effective_velocity cfg P inp st))
                                     (snd (effective_velocity cfg P inp st))))"
  using assms read_velocity_cmd_target
    [of "callback_start inp" "motion_start cfg P inp (update_current_pose inp st)"]
  by (simp_all add: callback_cart_def effective_velocity_def delta_rotation_vector_in_call_def
      split_beta Let_def)

lemma length_effective_angular_velocity:
  assumes "length (angular_velocity_cmd st) = 3"
  shows "length (snd (effective_velocity cfg P inp st)) = 3"
  using assms by (simp add: effective_velocity_def read_velocity_cmd_def Let_def)

lemma length_effective_linear_velocity:
  assumes "length (linear_velocity_cmd st) = 3"
  shows "length (fst (effective_velocity cfg P inp st)) = 3"
  using assms by (simp add: effective_velocity_def read_velocity_cmd_def Let_def)

lemma delta_rotation_vector_base_frame:
  assumes "\<not> useTCPMove cfg" and "length lv = 3" and "length av = 3"
  shows "delta_rotation_vector_of cfg R (snd (scaled_velocity cfg lv av)) =
         map (\<lambda>w. w * max_angular_velocity cfg * dt) av"
proof -
  from assms(2) obtain a b c where lv: "lv = [a, b, c]" by (rule length_3_elems)
  from assms(3) obtain d e f where av: "av = [d, e, f]" by (rule length_3_elems)
  from assms(1) show ?thesis
    by (simp add: lv av delta_rotation_vector_of_def scaled_velocity_def scale_velocity_elems
        times_dt_elems)
qed

subsection \<open>The steps of the joint command\<close>

lemma fold_push_back:
  "fold (\<lambda>step s. step s)
     (map (\<lambda>x st. st\<lparr> joint_position_cmd := joint_position_cmd st @ [x] \<rparr>) xs) st =
   st\<lparr> joint_position_cmd := joint_position_cmd st @ xs \<rparr>"
  by (induction xs arbitrary: st) simp_all

text \<open>Run to the end, the steps make the state change of the \<open>joint_position\<close> branch.\<close>

lemma joint_position_write_steps_complete:
  assumes "\<not> (contains j ''linear_velocity'' \<and> contains j ''angular_velocity'')"
    and "\<not> contains j ''pose_matrix''" and "contains j ''joint_position''"
    and "get_array 7 (at_key j ''joint_position'') = Inr joint_position"
  shows "zmq_receiver_step t (parse_ok j) st =
         Inr (run_steps (joint_position_write_steps joint_position t) st, [])"
  using assms
  by (auto simp: zmq_receiver_step_def run_steps_def joint_position_write_steps_def fold_push_back)

lemma callback_cart_accesses_guarded: "guarded [] (callback_cart_accesses cmd timed_out supressed)"
  by (simp add: callback_cart_accesses_def)

lemma zmq_sender_accesses_guarded: "guarded [] (zmq_sender_accesses cmd)"
  by (simp add: zmq_sender_accesses_def)

section \<open>The claims\<close>

subsection \<open>C1: messages the receiver does not recognise\<close>

text \<open>
  C1, as stated, fails. A message that is not valid JSON makes \<open>json::parse\<close> throw; the
  lambda \<open>zmq_receiver\<close> has no handler, so the exception ends the receive loop: here the
  joint command that follows the bad message is never handled.
\<close>

theorem invalid_json_ends_receive_loop:
  "zmq_receiver
     [Some (1000000, parse_failure),
      Some (2000000, parse_ok (JObject [(''joint_position'', JArray (map JNumber [0, 0, 0, 0, 0, 0, 0]))]))]
     (declared_state 0)
   = Inl parse_error"
  by (simp add: zmq_receiver_step_def)

text \<open>
  C1, amended: for every inbound message that is valid JSON and has none of the recognised
  shapes (not both \<open>linear_velocity\<close> and \<open>angular_velocity\<close>, no \<open>pose_matrix\<close>, no
  \<open>joint_position\<close>), the receiver writes the message to \<open>std::cerr\<close> and drops it, leaves
  every shared variable as it was, and the loop goes on with the next message.
\<close>

theorem unrecognized_message_logged_and_dropped:
  assumes "\<not> (contains j ''linear_velocity'' \<and> contains j ''angular_velocity'')"
    and "\<not> contains j ''pose_matrix''"
    and "\<not> contains j ''joint_position''"
  shows "zmq_receiver_step t (parse_ok j) st = Inr (st, [stderr_unknown_command j]) \<and>
         zmq_receiver (Some (t, parse_ok j) # ms) st =
           (case zmq_receiver ms st of
              Inl e \<Rightarrow> Inl e
            | Inr (st', out) \<Rightarrow> Inr (st', stderr_unknown_command j # out))"
  using assms by (auto simp: zmq_receiver_step_def split: sum.splits)

text \<open>Witness: the message \<open>{"gripper": 1}\<close>, followed by a velocity command that is handled.\<close>

theorem unrecognized_message_logged_and_dropped_witness:
  "\<not> (contains (JObject [(''gripper'', JNumber 1)]) ''linear_velocity'' \<and>
      contains (JObject [(''gripper'', JNumber 1)]) ''angular_velocity'') \<and>
   \<not> contains (JObject [(''gripper'', JNumber 1)]) ''pose_matrix'' \<and>
   \<not> contains (JObject [(''gripper'', JNumber 1)]) ''joint_position'' \<and>
   zmq_receiver_step 5000000 (parse_ok (JObject [(''gripper'', JNumber 1)])) moving_state =
     Inr (moving_state, [stderr_unknown_command (JObject [(''gripper'', JNumber 1)])]) \<and>
   zmq_receiver [Some (5000000, parse_ok (JObject [(''gripper'', JNumber 1)])),
                 Some (6000000, parse_ok (velocity_message [0, 1, 0] [0, 0, 0]))] moving_state =
     Inr (moving_state\<lparr> linear_velocity_cmd := [0, 1, 0], angular_velocity_cmd := [0, 0, 0],
                        command_supressed := False, last_message_time := 6000000 \<rparr>,
          [stderr_unknown_command (JObject [(''gripper'', JNumber 1)])])"
  using unrecognized_message_logged_and_dropped
    [of "JObject [(''gripper'', JNumber 1)]" 5000000 moving_state
        "[Some (6000000, parse_ok (velocity_message [0, 1, 0] [0, 0, 0]))]"]
  by (simp add: velocity_message_step)

subsection \<open>C2: the call of the callback at which the command is stale\<close>

text \<open>
  C2, as stated, fails. The staleness check compares the elapsed time after
  \<open>duration_cast<milliseconds>\<close>, which drops the fraction of a millisecond, with 100 ms. At a
  call 100.999999 ms after the last message the time since the message exceeds 100 ms and
  the command is not suppressed, yet the check does not fire: the call uses the linear
  velocity (1, 0, 0) and moves the x translation of the target from 1/2 to 1/2 + 8/100000.
\<close>

theorem call_between_100_and_101_ms_keeps_velocity:
  "cmdType velocity_config = xyzrpy_vel \<and>
   callback_start (observed_at 100999999) - last_message_time moving_state > 100000000 \<and>
   \<not> command_supressed moving_state \<and>
   effective_velocity velocity_config (\<lambda>p. quarter_turn_pose) (observed_at 100999999) moving_state =
     ([1, 0, 0], [0, 0, 0]) \<and>
   target_pose_matrix moving_state ! 3 = 1 / 2 \<and>
   fst (callback_cart velocity_config (\<lambda>p. quarter_turn_pose) (observed_at 100999999) moving_state) ! 3 =
     1 / 2 + 8 / 100000"
proof -
  have c: "cmdType velocity_config = xyzrpy_vel" "\<not> useTCPMove velocity_config"
    "useDesiredPose velocity_config" "max_linear_velocity velocity_config = 8 / 100"
    by (simp_all add: velocity_config_def main_config_def)
  have s: "linear_velocity_cmd moving_state = [1, 0, 0]"
    "angular_velocity_cmd moving_state = [0, 0, 0]" "\<not> command_supressed moving_state"
    "last_message_time moving_state = 0" "target_pose_matrix moving_state = quarter_turn_pose"
    by (simp_all add: moving_state_def declared_state_def)
  have q: "\<not> duration_cast_ms (callback_start (observed_at 100999999) - last_message_time moving_state)
             > timeout_duration"
    by (simp add: s observed_at_def timeout_duration_def)
  have e: "effective_velocity velocity_config (\<lambda>p. quarter_turn_pose) (observed_at 100999999)
             moving_state = ([1, 0, 0], [0, 0, 0])"
    using q by (simp add: effective_velocity_def read_velocity_cmd_quiet s)
  have r: "fst (callback_cart velocity_config (\<lambda>p. quarter_turn_pose) (observed_at 100999999)
                  moving_state) ! 3 = 1 / 2 + 8 / 100000"
    using q c
    by (simp add: callback_cart_def read_velocity_cmd_quiet s integrate_unit_x
        quarter_turn_pose_def dt_def)
  have t: "callback_start (observed_at 100999999) - last_message_time moving_state > 100000000"
    by (simp add: s observed_at_def)
  have x: "target_pose_matrix moving_state ! 3 = 1 / 2"
    by (simp add: s quarter_turn_pose_def)
  show ?thesis
    by (intro conjI c(1) t s(3) e x r)
qed

text \<open>
  C2, amended: in velocity mode (\<open>cmdType = xyzrpy_vel\<close>, with \<open>useDesiredPose\<close> as the source
  sets it), at every call of \<open>callback_cart\<close> where the time since the last message, cut to
  whole milliseconds as the check does, exceeds 100 ms (that is, at least 101 ms have
  passed, by \<open>duration_cast_ms_exceeds_timeout\<close>) and the command is not suppressed, the linear
  and the angular velocity the call uses are exactly zero and the returned transform is the
  target of the previous call, in every entry, translation and rotation submatrix alike.
\<close>

theorem stale_call_uses_zero_velocity_and_keeps_target:
  assumes "cmdType cfg = xyzrpy_vel"
    and "useDesiredPose cfg"
    and "duration_cast_ms (callback_start inp - last_message_time st) > timeout_duration"
    and "\<not> command_supressed st"
  shows "effective_velocity cfg P inp st = ([0, 0, 0], [0, 0, 0]) \<and>
         fst (callback_cart cfg P inp st) = target_pose_matrix st"
  using assms
  by (simp add: effective_velocity_def callback_cart_def read_velocity_cmd_stale integrate_zero)

text \<open>Witness: the unit velocity along x, last message at 0, a call 200 ms later.\<close>

theorem stale_call_uses_zero_velocity_and_keeps_target_witness:
  "cmdType velocity_config = xyzrpy_vel \<and> useDesiredPose velocity_config \<and>
   duration_cast_ms (callback_start (observed_at 200000000) - last_message_time moving_state)
     > timeout_duration \<and>
   \<not> command_supressed moving_state \<and>
   linear_velocity_cmd moving_state = [1, 0, 0] \<and>
   effective_velocity velocity_config (\<lambda>p. quarter_turn_pose) (observed_at 200000000) moving_state =
     ([0, 0, 0], [0, 0, 0]) \<and>
   fst (callback_cart velocity_config (\<lambda>p. quarter_turn_pose) (observed_at 200000000) moving_state) =
     quarter_turn_pose"
  using stale_call_uses_zero_velocity_and_keeps_target
    [of velocity_config "observed_at 200000000" moving_state "\<lambda>p. quarter_turn_pose"]
  by (simp add: velocity_config_def main_config_def observed_at_def moving_state_def
      declared_state_def timeout_duration_def)

subsection \<open>C3: the suppressed flag written by the receiver\<close>

text \<open>
  C3: the \<open>pose_matrix\<close> branch of the receiver assigns \<open>command_supressed = false\<close>, where
  the claim (and the \<open>joint_position\<close> branch) has true. Here the flag is true before the
  message \<open>{"pose_matrix": [1,0,0,0, 0,1,0,0, 0,0,1,0, 0,0,0,1]}\<close> and false after it.
\<close>

theorem pose_matrix_message_clears_command_supressed:
  "zmq_receiver_step 5000000
     (parse_ok (JObject [(''pose_matrix'',
        JArray (map JNumber [1, 0, 0, 0, 0, 1, 0, 0, 0, 0, 1, 0, 0, 0, 0, 1]))]))
     ((declared_state 0)\<lparr> command_supressed := True \<rparr>)
   = Inr ((declared_state 0)\<lparr> pose_matrix_cmd := [1, 0, 0, 0, 0, 1, 0, 0, 0, 0, 1, 0, 0, 0, 0, 1],
                               command_supressed := False, last_message_time := 5000000 \<rparr>, [])"
  by (simp add: zmq_receiver_step_def eval_nat_numeral)

subsection \<open>C4: what the staleness check writes\<close>

text \<open>
  C4, as stated, fails: the staleness check assigns the shared variables. Before the call
  the shared linear velocity is (1, 0, 0) and the flag is false; after it the velocity is
  zero and the flag is true.
\<close>

theorem stale_call_changes_shared_command:
  "linear_velocity_cmd moving_state = [1, 0, 0] \<and>
   \<not> command_supressed moving_state \<and>
   linear_velocity_cmd
     (fst (snd (callback_cart velocity_config (\<lambda>p. quarter_turn_pose) (observed_at 200000000)
                  moving_state))) = [0, 0, 0] \<and>
   command_supressed
     (fst (snd (callback_cart velocity_config (\<lambda>p. quarter_turn_pose) (observed_at 200000000)
                  moving_state)))"
  by (simp add: callback_cart_def read_velocity_cmd_def velocity_config_def main_config_def
      observed_at_def moving_state_def declared_state_def timeout_duration_def Let_def)

text \<open>
  C4, amended: when the staleness check fires at a call of \<open>callback_cart\<close> in velocity mode
  (command older than 100 ms and not suppressed), the call writes the shared command: the
  shared linear and angular velocity become zero and the shared suppressed flag becomes
  true, the warning is written once; the pose matrix, the joint target and the time of the
  last message keep their values.
\<close>

theorem stale_call_zeroes_shared_velocity_and_sets_flag:
  assumes "cmdType cfg = xyzrpy_vel"
    and "duration_cast_ms (callback_start inp - last_message_time st) > timeout_duration"
    and "\<not> command_supressed st"
  shows "linear_velocity_cmd (fst (snd (callback_cart cfg P inp st))) = [0, 0, 0] \<and>
         angular_velocity_cmd (fst (snd (callback_cart cfg P inp st))) = [0, 0, 0] \<and>
         command_supressed (fst (snd (callback_cart cfg P inp st))) \<and>
         pose_matrix_cmd (fst (snd (callback_cart cfg P inp st))) = pose_matrix_cmd st \<and>
         joint_position_cmd (fst (snd (callback_cart cfg P inp st))) = joint_position_cmd st \<and>
         last_message_time (fst (snd (callback_cart cfg P inp st))) = last_message_time st \<and>
         snd (snd (callback_cart cfg P inp st)) = [stderr_timeout_warning]"
  using assms
  by (simp add: callback_cart_def read_velocity_cmd_stale)

text \<open>Witness: the same call, 150 ms after the last message.\<close>

theorem stale_call_zeroes_shared_velocity_and_sets_flag_witness:
  "cmdType velocity_config = xyzrpy_vel \<and>
   duration_cast_ms (callback_start (observed_at 150000000) - last_message_time moving_state)
     > timeout_duration \<and>
   \<not> command_supressed moving_state \<and>
   linear_velocity_cmd
     (fst (snd (callback_cart velocity_config (\<lambda>p. quarter_turn_pose) (observed_at 150000000)
                  moving_state))) = [0, 0, 0] \<and>
   command_supressed
     (fst (snd (callback_cart velocity_config (\<lambda>p. quarter_turn_pose) (observed_at 150000000)
                  moving_state))) \<and>
   snd (snd (callback_cart velocity_config (\<lambda>p. quarter_turn_pose) (observed_at 150000000)
               moving_state)) = [stderr_timeout_warning]"
  using stale_call_zeroes_shared_velocity_and_sets_flag
    [of velocity_config "observed_at 150000000" moving_state "\<lambda>p. quarter_turn_pose"]
  by (simp add: velocity_config_def main_config_def observed_at_def moving_state_def
      declared_state_def timeout_duration_def)

subsection \<open>C5: pose mode returns the pose command\<close>

text \<open>
  C5: in pose mode (\<open>cmdType = pose_mat\<close>), once the receiver has handled a message whose
  \<open>pose_matrix\<close> holds the 16 numbers \<open>M\<close>, every call of \<open>callback_cart\<close> that comes before the
  next pose message returns \<open>M\<close>, entry for entry: whatever the clock readings and the
  observations of the calls in between, whatever other messages arrive, and whatever the
  velocity fields of the state hold. No integration step is applied.
\<close>

theorem pose_mode_returns_latest_pose_matrix:
  assumes "cmdType cfg = pose_mat"
    and "\<not> (contains j ''linear_velocity'' \<and> contains j ''angular_velocity'')"
    and "contains j ''pose_matrix''"
    and "get_array 16 (at_key j ''pose_matrix'') = Inr M"
    and "\<forall>e \<in> set evs. \<not> ingests_pose e"
    and "run cfg P (Recv t (parse_ok j) # evs) st = Inr (st', out)"
  shows "fst (callback_cart cfg P inp st') = M \<and> length M = 16"
proof -
  from assms(2,3,4) have s: "zmq_receiver_step t (parse_ok j) st =
      Inr (st\<lparr> pose_matrix_cmd := M, command_supressed := False, last_message_time := t \<rparr>, [])"
    by (auto simp: zmq_receiver_step_def)
  with assms(6) obtain out' where
    "run cfg P evs (st\<lparr> pose_matrix_cmd := M, command_supressed := False, last_message_time := t \<rparr>)
       = Inr (st', out')"
    by (auto split: sum.splits prod.splits)
  from run_pose_matrix_cmd [OF this assms(5)] have "pose_matrix_cmd st' = M" by simp
  with assms(1) have "fst (callback_cart cfg P inp st') = M"
    by (simp add: callback_cart_pose_mat)
  moreover from assms(4) have "length M = 16" by (rule get_array_length)
  ultimately show ?thesis by simp
qed

text \<open>Witness: the configuration of the source; a pose message, then a call of the callback,
  a velocity message and a message of no known shape; the call made 5 s later returns the
  matrix of the pose message.\<close>

theorem pose_mode_returns_latest_pose_matrix_witness:
  "cmdType main_config = pose_mat \<and>
   contains (JObject [(''pose_matrix'', JArray (map JNumber quarter_turn_pose))]) ''pose_matrix'' \<and>
   get_array 16 (at_key (JObject [(''pose_matrix'', JArray (map JNumber quarter_turn_pose))])
     ''pose_matrix'') = Inr quarter_turn_pose \<and>
   fst (callback_cart main_config (\<lambda>p. quarter_turn_pose) (observed_at 5000000000)
     ((declared_state 0)
        \<lparr> linear_velocity_cmd := [0, 1, 0], angular_velocity_cmd := [0, 0, 0],
          pose_matrix_cmd := quarter_turn_pose, command_supressed := False,
          last_message_time := 3000000,
          current_posture := [1 / 2, 0, 2 / 5, 0, 0, 0], current_joint := [0, 0, 0, 0, 0, 0, 0],
          target_pose_matrix := quarter_turn_pose \<rparr>)) = quarter_turn_pose"
proof -
  let ?j = "JObject [(''pose_matrix'', JArray (map JNumber quarter_turn_pose))]"
  let ?evs = "[Tick (observed_at 2000000),
               Recv 3000000 (parse_ok (velocity_message [0, 1, 0] [0, 0, 0])),
               Recv 4000000 (parse_ok (JObject [(''gripper'', JNumber 1)]))]"
  let ?st' = "(declared_state 0)
        \<lparr> linear_velocity_cmd := [0, 1, 0], angular_velocity_cmd := [0, 0, 0],
          pose_matrix_cmd := quarter_turn_pose, command_supressed := False,
          last_message_time := 3000000,
          current_posture := [1 / 2, 0, 2 / 5, 0, 0, 0], current_joint := [0, 0, 0, 0, 0, 0, 0],
          target_pose_matrix := quarter_turn_pose \<rparr>"
  have h1: "cmdType main_config = pose_mat" by (simp add: main_config_def)
  have h2: "\<not> (contains ?j ''linear_velocity'' \<and> contains ?j ''angular_velocity'')" by simp
  have h3: "contains ?j ''pose_matrix''" by simp
  have h4: "get_array 16 (at_key ?j ''pose_matrix'') = Inr quarter_turn_pose"
    by (simp add: quarter_turn_pose_def eval_nat_numeral)
  have h5: "\<forall>e \<in> set ?evs. \<not> ingests_pose e" by (simp add: velocity_message_def)
  have h6: "run main_config (\<lambda>p. quarter_turn_pose) (Recv 1000000 (parse_ok ?j) # ?evs)
              (declared_state 0) =
            Inr (?st', [stderr_unknown_command (JObject [(''gripper'', JNumber 1)])])"
    by (simp add: zmq_receiver_step_def velocity_message_def tick_def callback_cart_def
        update_current_pose_def observed_at_def declared_state_def main_config_def
        quarter_turn_pose_def eval_nat_numeral)
  from pose_mode_returns_latest_pose_matrix [OF h1 h2 h3 h4 h5 h6, of "observed_at 5000000000"]
    h1 h3 h4
  show ?thesis by simp
qed

subsection \<open>C6: one second of unit velocity along x\<close>

text \<open>
  C6: in velocity mode with \<open>useTCPMove\<close> off (and \<open>useDesiredPose\<close> as the source sets it),
  from any target pose, in a run where the shared command is linear velocity (1, 0, 0) and
  angular velocity (0, 0, 0), every message received repeats that command, the command is
  fresh at every call of the callback, and the callback is called exactly 1000 times (each
  call integrates over the fixed \<open>dt\<close> of 1 ms): the x translation (entry 3) of the target
  grows by exactly \<open>max_linear_velocity * 1\<close>, and every other entry of the transform, the y
  and z translations and the rotation submatrix among them, is unchanged. No warning is
  written.
\<close>

theorem unit_x_velocity_for_1000_calls:
  assumes "cmdType cfg = xyzrpy_vel" and "\<not> useTCPMove cfg" and "useDesiredPose cfg"
    and "linear_velocity_cmd st = [1, 0, 0]" and "angular_velocity_cmd st = [0, 0, 0]"
    and "length (target_pose_matrix st) = 16"
    and "\<forall>e \<in> set evs. unit_x_event e"
    and "fresh_run evs (last_message_time st)"
    and "ticks_of evs = 1000"
  shows "\<exists>st'. run cfg P evs st = Inr (st', []) \<and>
           target_pose_matrix st' ! 3 = target_pose_matrix st ! 3 + max_linear_velocity cfg * 1 \<and>
           (\<forall>i < 16. i \<noteq> 3 \<longrightarrow> target_pose_matrix st' ! i = target_pose_matrix st ! i) \<and>
           length (target_pose_matrix st') = 16"
proof -
  from assms(6) have l: "3 < length (target_pose_matrix st)" by simp
  from run_unit_x [OF assms(1,2,3,7,8,4,5) l, of P]
  obtain st' where r: "run cfg P evs st = Inr (st', [])"
    and tg: "target_pose_matrix st' =
             (target_pose_matrix st)[3 := target_pose_matrix st ! 3 +
                                          real (ticks_of evs) * (max_linear_velocity cfg * dt)]"
    by blast
  from tg assms(9) have "target_pose_matrix st' =
      (target_pose_matrix st)[3 := target_pose_matrix st ! 3 + max_linear_velocity cfg * 1]"
    by (simp add: dt_def)
  with r l assms(6) show ?thesis by auto
qed

text \<open>Witness: the command is sent at 1 ms, then the callback is called 1000 times, 50 ms
  after the message by the clock. The x translation goes from 1/2 to 1/2 + 8/100; the
  z translation stays 2/5 and the rotation entry 6 stays -1.\<close>

theorem unit_x_velocity_for_1000_calls_witness:
  "cmdType velocity_config = xyzrpy_vel \<and> \<not> useTCPMove velocity_config \<and>
   useDesiredPose velocity_config \<and>
   linear_velocity_cmd moving_state = [1, 0, 0] \<and> angular_velocity_cmd moving_state = [0, 0, 0] \<and>
   length (target_pose_matrix moving_state) = 16 \<and>
   fresh_run (Recv 1000000 (parse_ok (velocity_message [1, 0, 0] [0, 0, 0])) #
              replicate 1000 (Tick (observed_at 51000000))) (last_message_time moving_state) \<and>
   ticks_of (Recv 1000000 (parse_ok (velocity_message [1, 0, 0] [0, 0, 0])) #
             replicate 1000 (Tick (observed_at 51000000))) = 1000 \<and>
   (\<exists>st'. run velocity_config (\<lambda>p. quarter_turn_pose)
             (Recv 1000000 (parse_ok (velocity_message [1, 0, 0] [0, 0, 0])) #
              replicate 1000 (Tick (observed_at 51000000))) moving_state = Inr (st', []) \<and>
           target_pose_matrix st' ! 3 = 1 / 2 + 8 / 100 \<and>
           target_pose_matrix st' ! 11 = 2 / 5 \<and>
           target_pose_matrix st' ! 6 = - 1)"
proof -
  let ?evs = "Recv 1000000 (parse_ok (velocity_message [1, 0, 0] [0, 0, 0])) #
              replicate 1000 (Tick (observed_at 51000000))"
  have h1: "cmdType velocity_config = xyzrpy_vel" "\<not> useTCPMove velocity_config"
    "useDesiredPose velocity_config"
    by (simp_all add: velocity_config_def main_config_def)
  have h4: "linear_velocity_cmd moving_state = [1, 0, 0]"
    "angular_velocity_cmd moving_state = [0, 0, 0]"
    "length (target_pose_matrix moving_state) = 16"
    by (simp_all add: moving_state_def declared_state_def quarter_turn_pose_def)
  have h7: "\<forall>e \<in> set ?evs. unit_x_event e" by simp
  have "duration_cast_ms (callback_start (observed_at 51000000) - 1000000) \<le> timeout_duration"
    by (simp add: observed_at_def timeout_duration_def)
  then have h8: "fresh_run ?evs (last_message_time moving_state)"
    by (simp add: fresh_run_replicate)
  have h9: "ticks_of ?evs = 1000" by (simp add: ticks_of_replicate)
  from unit_x_velocity_for_1000_calls [OF h1 h4 h7 h8 h9, of "\<lambda>p. quarter_turn_pose"]
  obtain st' where r: "run velocity_config (\<lambda>p. quarter_turn_pose) ?evs moving_state = Inr (st', [])"
    and x: "target_pose_matrix st' ! 3 =
            target_pose_matrix moving_state ! 3 + max_linear_velocity velocity_config * 1"
    and o: "\<forall>i < 16. i \<noteq> 3 \<longrightarrow> target_pose_matrix st' ! i = target_pose_matrix moving_state ! i"
    by blast
  from x have "target_pose_matrix st' ! 3 = 1 / 2 + 8 / 100"
    by (simp add: moving_state_def quarter_turn_pose_def velocity_config_def main_config_def)
  moreover from o have "target_pose_matrix st' ! 11 = 2 / 5" "target_pose_matrix st' ! 6 = - 1"
    by (simp_all add: moving_state_def quarter_turn_pose_def)
  ultimately show ?thesis using r h1 h4 h8 h9 by blast
qed

subsection \<open>C7: the rotation update\<close>

text \<open>
  C7: at every call of \<open>callback_cart\<close> in velocity mode (with \<open>useDesiredPose\<close> as the source
  sets it), let \<open>drv\<close> be the \<open>delta_rotation_vector\<close> of the call: with \<open>useTCPMove\<close> off, as in
  the source, it is the angular velocity of the call scaled by \<open>max_angular_velocity\<close> times
  the fixed \<open>dt\<close>. Let the angle be the norm of \<open>drv\<close>. If the angle is above 1e-6, the rotation
  submatrix of the returned transform (rows and columns 0 to 2) is the Rodrigues matrix of
  the normalised \<open>drv\<close> and the angle, multiplied on the left onto the rotation submatrix of
  the previous target. If the angle is at most 1e-6, the rotation submatrix is the one of
  the previous target.
\<close>

theorem rotation_update_is_rodrigues_times_current:
  assumes "cmdType cfg = xyzrpy_vel" and "useDesiredPose cfg"
    and "length (target_pose_matrix st) = 16"
    and "length (linear_velocity_cmd st) = 3" and "length (angular_velocity_cmd st) = 3"
    and "i < 3" and "j < 3"
  shows "(\<not> useTCPMove cfg \<longrightarrow>
            delta_rotation_vector_in_call cfg P inp st =
            map (\<lambda>w. w * max_angular_velocity cfg * dt) (snd (effective_velocity cfg P inp st))) \<and>
         (vector_norm (delta_rotation_vector_in_call cfg P inp st) > 1 / 1000000 \<longrightarrow>
            fst (callback_cart cfg P inp st) ! (i * 4 + j) =
            (\<Sum>k<3. rodrigues (unit_vector (delta_rotation_vector_in_call cfg P inp st))
                              (vector_norm (delta_rotation_vector_in_call cfg P inp st)) i k *
                    target_pose_matrix st ! (k * 4 + j))) \<and>
         (vector_norm (delta_rotation_vector_in_call cfg P inp st) \<le> 1 / 1000000 \<longrightarrow>
            fst (callback_cart cfg P inp st) ! (i * 4 + j) = target_pose_matrix st ! (i * 4 + j))"
proof -
  let ?lv = "fst (effective_velocity cfg P inp st)"
  let ?av = "snd (effective_velocity cfg P inp st)"
  let ?drv = "delta_rotation_vector_in_call cfg P inp st"
  note cb = callback_cart_velocity [OF assms(1,2), of P inp st]
  have l: "length ?lv = 3" "length ?av = 3"
    using assms(4,5) by (simp_all add: length_effective_linear_velocity
        length_effective_angular_velocity)
  have ldrv: "length ?drv = 3"
    unfolding cb(2) by (rule length_delta_rotation_vector)
  have entry: "fst (callback_cart cfg P inp st) ! (i * 4 + j) =
      (\<Sum>k<3. delta_rotation_matrix_of ?drv ! (i * 3 + k) * target_pose_matrix st ! (k * 4 + j))"
    unfolding cb by (rule integrate_rotation_entry [OF assms(3,6,7)])
  have base: "\<not> useTCPMove cfg \<longrightarrow> ?drv = map (\<lambda>w. w * max_angular_velocity cfg * dt) ?av"
    unfolding cb(2) using l by (simp add: delta_rotation_vector_base_frame)
  have above: "fst (callback_cart cfg P inp st) ! (i * 4 + j) =
      (\<Sum>k<3. rodrigues (unit_vector ?drv) (vector_norm ?drv) i k * target_pose_matrix st ! (k * 4 + j))"
    if "vector_norm ?drv > 1 / 1000000"
    unfolding entry
    by (rule sum.cong) (simp_all add: delta_rotation_matrix_rodrigues [OF ldrv that assms(6)])
  have below: "fst (callback_cart cfg P inp st) ! (i * 4 + j) = target_pose_matrix st ! (i * 4 + j)"
    if "vector_norm ?drv \<le> 1 / 1000000"
  proof -
    from assms(6,7) less_3_cases have "i = 0 \<or> i = 1 \<or> i = 2" "j = 0 \<or> j = 1 \<or> j = 2"
      by blast+
    then show ?thesis
      unfolding entry delta_rotation_matrix_identity [OF that] sum_lessThan_3
      by (elim disjE) simp_all
  qed
  from base above below show ?thesis by blast
qed

text \<open>Witness: the angular velocity (0, 0, 1), fresh, with the target a quarter turn about
  x. The vector is (0, 0, 0.16 * 0.001), its norm 0.00016 is above 1e-6, and entry (0, 2) of
  the returned transform is \<open>sin 0.00016\<close>.\<close>

theorem rotation_update_is_rodrigues_times_current_witness:
  "cmdType velocity_config = xyzrpy_vel \<and> useDesiredPose velocity_config \<and>
   length (target_pose_matrix turning_state) = 16 \<and>
   length (linear_velocity_cmd turning_state) = 3 \<and>
   length (angular_velocity_cmd turning_state) = 3 \<and>
   (0::nat) < 3 \<and> (2::nat) < 3 \<and> \<not> useTCPMove velocity_config \<and>
   delta_rotation_vector_in_call velocity_config (\<lambda>p. quarter_turn_pose) (observed_at 50000000)
     turning_state = [0, 0, 16 / 100000] \<and>
   vector_norm [0, 0, 16 / 100000] > 1 / 1000000 \<and>
   fst (callback_cart velocity_config (\<lambda>p. quarter_turn_pose) (observed_at 50000000) turning_state)
     ! (0 * 4 + 2) = sin (16 / 100000)"
proof -
  let ?P = "\<lambda>p::real list. quarter_turn_pose"
  let ?inp = "observed_at 50000000"
  let ?drv = "delta_rotation_vector_in_call velocity_config ?P ?inp turning_state"
  have h: "cmdType velocity_config = xyzrpy_vel" "useDesiredPose velocity_config"
    "length (target_pose_matrix turning_state) = 16"
    "length (linear_velocity_cmd turning_state) = 3"
    "length (angular_velocity_cmd turning_state) = 3"
    by (simp_all add: velocity_config_def main_config_def turning_state_def moving_state_def
        declared_state_def quarter_turn_pose_def)
  have i: "(0::nat) < 3" and j: "(2::nat) < 3" by simp_all
  have tcp: "\<not> useTCPMove velocity_config"
    by (simp add: velocity_config_def main_config_def)
  have ev: "effective_velocity velocity_config ?P ?inp turning_state = ([0, 0, 0], [0, 0, 1])"
    by (simp add: effective_velocity_def read_velocity_cmd_def turning_state_def moving_state_def
        declared_state_def observed_at_def timeout_duration_def Let_def)
  note th = rotation_update_is_rodrigues_times_current [OF h i j, of ?P ?inp]
  from th tcp ev have drv: "?drv = [0, 0, 16 / 100000]"
    by (simp add: velocity_config_def main_config_def dt_def)
  have n: "vector_norm [0, 0, 16 / 100000] = 16 / 100000"
    by (simp add: vector_norm_def sum_lessThan_3)
  have u: "unit_vector [0, 0, 16 / 100000] = [0, 0, 1]"
    unfolding unit_vector_def n by simp
  have gt: "vector_norm ?drv > 1 / 1000000"
    unfolding drv n by simp
  from th have "vector_norm ?drv > 1 / 1000000 \<longrightarrow>
      fst (callback_cart velocity_config ?P ?inp turning_state) ! (0 * 4 + 2) =
      (\<Sum>k<3. rodrigues (unit_vector ?drv) (vector_norm ?drv) 0 k *
              target_pose_matrix turning_state ! (k * 4 + 2))"
    by blast
  with gt have "fst (callback_cart velocity_config ?P ?inp turning_state) ! (0 * 4 + 2) =
      (\<Sum>k<3. rodrigues (unit_vector ?drv) (vector_norm ?drv) 0 k *
              target_pose_matrix turning_state ! (k * 4 + 2))"
    by blast
  also have "\<dots> = sin (16 / 100000)"
    unfolding drv u n sum_lessThan_3
    by (simp add: rodrigues_def cross_product_matrix_def turning_state_def moving_state_def
        quarter_turn_pose_def)
  finally have r: "fst (callback_cart velocity_config ?P ?inp turning_state) ! (0 * 4 + 2) =
      sin (16 / 100000)" .
  from gt have "vector_norm [0, 0, 16 / 100000] > 1 / 1000000"
    unfolding drv .
  with h i j tcp drv r show ?thesis by blast
qed

subsection \<open>C8: the seed of the target pose\<close>

text \<open>
  C8, as stated, fails: the loop multiplies the observed flange pose on the left and
  \<open>tcp_frame\<close> on the right. For a flange turned a quarter about x the y translation of the
  seed (entry 7) is -1/5, where the product with the tool offset on the left has 0.
\<close>

theorem seed_is_not_tool_offset_times_observed_pose:
  "target_pose_matrix
     (seed_targets (\<lambda>p. quarter_turn_pose) [1 / 2, 0, 2 / 5, 0, 0, 0] [0, 0, 0, 0, 0, 0, 0]
        (declared_state 0)) ! 7 = - 1 / 5 \<and>
   product_entry tcp_frame quarter_turn_pose 1 3 = 0"
  by (simp add: seed_targets_def quarter_turn_pose_def tcp_frame_def tcp_in_base_elems
      product_entry_def sum_lessThan_4 declared_state_def)

text \<open>
  C8, amended: at start-up the initial target pose is the observed flange pose multiplied on
  the right by the fixed tool-frame offset, as 4x4 homogeneous transforms
  (targetPose = observedPose * toolOffset): the pose of the tool centre point in the base
  frame.
\<close>

theorem seed_is_observed_pose_times_tool_offset:
  assumes "length (postureToTransArray posture0) = 16" and "i < 4" and "j < 4"
  shows "target_pose_matrix (seed_targets postureToTransArray posture0 joint0 st) ! (i * 4 + j) =
         product_entry (postureToTransArray posture0) tcp_frame i j"
  using tcp_in_base_entry [OF assms(1) _ assms(2,3), of tcp_frame]
  by (simp add: seed_targets_def Let_def tcp_frame_def)

text \<open>Witness: the flange turned a quarter about x at (1/2, 0, 2/5); the tool centre point
  is 0.2 along the flange's z axis, which points along -y of the base.\<close>

theorem seed_is_observed_pose_times_tool_offset_witness:
  "length quarter_turn_pose = 16 \<and> (1::nat) < 4 \<and> (3::nat) < 4 \<and>
   target_pose_matrix
     (seed_targets (\<lambda>p. quarter_turn_pose) [1 / 2, 0, 2 / 5, 0, 0, 0] [0, 0, 0, 0, 0, 0, 0]
        (declared_state 0)) ! 7 = product_entry quarter_turn_pose tcp_frame 1 3 \<and>
   product_entry quarter_turn_pose tcp_frame 1 3 = - 1 / 5"
  using seed_is_observed_pose_times_tool_offset
    [of "\<lambda>p. quarter_turn_pose" "[1 / 2, 0, 2 / 5, 0, 0, 0]" 1 3 "[0, 0, 0, 0, 0, 0, 0]"
        "declared_state 0"]
  by (simp add: quarter_turn_pose_def tcp_frame_def product_entry_def sum_lessThan_4)

subsection \<open>C9: the locks in joint mode\<close>

text \<open>
  C9: \<open>callback_joint\<close> writes \<open>current_posture\<close> and \<open>current_joint\<close> and reads
  \<open>joint_position_cmd\<close> without taking a mutex, where \<open>callback_cart\<close>, the receiver and the
  sender take \<open>pose_mutex\<close> and \<open>command_mutex\<close> around the same variables. A call of
  \<open>callback_joint\<close> can therefore fall between two statements of the receiver's locked
  block: here the joint command is 7 numbers before the message and 7 numbers after it, and
  the call made after \<open>clear()\<close> and two \<open>push_back\<close>s returns a target of 2 numbers.
\<close>

theorem callback_joint_reads_half_written_command:
  "\<not> guarded [] callback_joint_accesses \<and>
   guarded [] (callback_cart_accesses pose_mat False False) \<and>
   guarded [] zmq_receiver_joint_accesses \<and>
   guarded [] (zmq_sender_accesses joint_pose) \<and>
   joint_position_cmd joint_state = [0, 1 / 2, 0, 1, 0, 3 / 2, 0] \<and>
   joint_position_cmd (run_steps (joint_position_write_steps [1, 1, 1, 1, 1, 1, 1] 5000000) joint_state)
     = [1, 1, 1, 1, 1, 1, 1] \<and>
   fst (callback_joint (observed_at 5000000)
          (run_steps (take 3 (joint_position_write_steps [1, 1, 1, 1, 1, 1, 1] 5000000)) joint_state))
     = [1, 1]"
  by (simp add: callback_joint_accesses_def callback_cart_accesses_def zmq_receiver_joint_accesses_def
      zmq_sender_accesses_def joint_state_def seed_targets_def Let_def
      declared_state_def run_steps_def joint_position_write_steps_def callback_joint_def)

subsection \<open>C10: after the timeout, until the next message\<close>

text \<open>
  C10: in velocity mode, once the staleness check has fired at a call of the callback, every
  later call that comes before the next inbound message uses a velocity of exactly zero and
  writes no warning: the warning of the episode is the one of the call at which the check
  fired. The flag \<open>command_supressed\<close>, set by that call, switches the check off, and only
  the receiver clears it.
\<close>

theorem timeout_persists_until_next_message:
  assumes "cmdType cfg = xyzrpy_vel"
    and "duration_cast_ms (callback_start inp0 - last_message_time st0) > timeout_duration"
    and "\<not> command_supressed st0"
    and "\<forall>e \<in> set evs. is_tick e"
  shows "snd (tick cfg P inp0 st0) = [stderr_timeout_warning] \<and>
         (\<exists>st. run cfg P evs (fst (tick cfg P inp0 st0)) = Inr (st, []) \<and>
               command_supressed st \<and>
               effective_velocity cfg P inp st = ([0, 0, 0], [0, 0, 0]) \<and>
               snd (tick cfg P inp st) = [])"
proof -
  let ?st1 = "fst (tick cfg P inp0 st0)"
  from assms(1,2,3) have w: "snd (tick cfg P inp0 st0) = [stderr_timeout_warning]"
    and "command_supressed ?st1" "linear_velocity_cmd ?st1 = [0, 0, 0]"
    "angular_velocity_cmd ?st1 = [0, 0, 0]"
    by (simp_all add: tick_def callback_cart_def read_velocity_cmd_stale)
  from run_quiet [OF assms(1,4) this(2,3,4), of P]
  obtain st where r: "run cfg P evs ?st1 = Inr (st, [])" and q: "command_supressed st"
    "linear_velocity_cmd st = [0, 0, 0]" "angular_velocity_cmd st = [0, 0, 0]" by auto
  from q have "effective_velocity cfg P inp st = ([0, 0, 0], [0, 0, 0])"
    by (simp add: effective_velocity_def read_velocity_cmd_quiet)
  moreover from tick_quiet [OF assms(1) q] have "snd (tick cfg P inp st) = []" by simp
  ultimately show ?thesis using w r q(1) by blast
qed

text \<open>Witness: the check fires 200 ms after the last message; 500 further calls follow,
  the next one is made at 900 ms.\<close>

theorem timeout_persists_until_next_message_witness:
  "cmdType velocity_config = xyzrpy_vel \<and>
   duration_cast_ms (callback_start (observed_at 200000000) - last_message_time moving_state)
     > timeout_duration \<and>
   \<not> command_supressed moving_state \<and>
   list_all is_tick (replicate 500 (Tick (observed_at 300000000))) \<and>
   snd (tick velocity_config (\<lambda>p. quarter_turn_pose) (observed_at 200000000) moving_state) =
     [stderr_timeout_warning] \<and>
   (\<exists>st. run velocity_config (\<lambda>p. quarter_turn_pose) (replicate 500 (Tick (observed_at 300000000)))
            (fst (tick velocity_config (\<lambda>p. quarter_turn_pose) (observed_at 200000000) moving_state))
          = Inr (st, []) \<and>
         command_supressed st \<and>
         effective_velocity velocity_config (\<lambda>p. quarter_turn_pose) (observed_at 900000000) st =
           ([0, 0, 0], [0, 0, 0]) \<and>
         snd (tick velocity_config (\<lambda>p. quarter_turn_pose) (observed_at 900000000) st) = [])"
proof -
  have h1: "cmdType velocity_config = xyzrpy_vel"
    by (simp add: velocity_config_def main_config_def)
  have h2: "duration_cast_ms (callback_start (observed_at 200000000) - last_message_time moving_state)
              > timeout_duration"
    by (simp add: observed_at_def moving_state_def declared_state_def timeout_duration_def)
  have h3: "\<not> command_supressed moving_state"
    by (simp add: moving_state_def declared_state_def)
  have h4: "\<forall>e \<in> set (replicate 500 (Tick (observed_at 300000000))). is_tick e" by simp
  have h4': "list_all is_tick (replicate 500 (Tick (observed_at 300000000)))"
    by (simp add: list_all_iff)
  from timeout_persists_until_next_message
    [OF h1 h2 h3 h4, of "\<lambda>p. quarter_turn_pose" "observed_at 900000000"] h1 h2 h3 h4'
  show ?thesis by blast
qed

end
